theory Spec2Isabelle
  imports Complex_Main "HOL-Library.Word" "HOL-Library.Log_Nat" "HOL-Library.Sublist"
    "HOL-Library.List_Lexorder" "HOL-Library.Char_ord"
begin

section \<open>The FRET raw-data decoder of fretdatainterface.py\<close>

text \<open>
  The embedding follows \<^verbatim>\<open>FRETDataInterface.run_conversion\<close> and its inner generator
  \<^verbatim>\<open>data_gen\<close>. A raw-data file is a list of bytes, a Python exception is a value of
  \<open>py_error\<close>, and a generator is modelled by its outcome: the frames it yields, in order,
  and the exception that ended it, if one did.
\<close>

type_synonym byte = "8 word"
type_synonym int16 = "16 word"
type_synonym frame = "int16 list list"

datatype py_error =
    StructError
  | ValueError_reshape
  | ValueError_float
  | ValueError_int
  | ValueError_strptime
  | ZeroDivisionError
  | OverflowError
  | IndexError
  | UnboundLocalError
  | FileNotFoundError
  | OSError
  | AssertionError string

type_synonym 'a gen = "'a list \<times> py_error option"

subsection \<open>Reading and unpacking one file\<close>

text \<open>\<^verbatim>\<open>byte = f.read(1000000000)\<close>: at most that many bytes, from the start of the file.\<close>

definition max_read :: nat where
  "max_read = 1000000000"

definition read_bytes :: "byte list \<Rightarrow> byte list" where
  "read_bytes content = take max_read content"

text \<open>
  \<^verbatim>\<open>struct.unpack('h' * (len(byte) // 2), byte)\<close>: the buffer must have exactly the size of
  the format, two bytes for each \<^verbatim>\<open>h\<close>, or \<^verbatim>\<open>struct.error\<close> is raised. The byte order is the
  platform's; it is taken little-endian here. The result is a tuple of Python integers, the
  signed values of the 16-bit words.
\<close>

fun le_words :: "byte list \<Rightarrow> int16 list" where
  "le_words (lo # hi # bs) = word_cat hi lo # le_words bs"
| "le_words _ = []"

definition struct_unpack_h :: "byte list \<Rightarrow> py_error + int list" where
  "struct_unpack_h byte =
     (if length byte = 2 * (length byte div 2) then Inr (map sint (le_words byte))
      else Inl StructError)"

subsection \<open>Arrays\<close>

text \<open>
  A two-dimensional array is the list of its rows. \<^verbatim>\<open>a.reshape(nrows, ncols, order='F')\<close> of a
  one-dimensional array puts element \<open>i + nrows * j\<close> at row \<open>i\<close>, column \<open>j\<close>, and raises
  \<^verbatim>\<open>ValueError\<close> when the sizes differ. \<^verbatim>\<open>m[:, j]\<close> is a column, \<^verbatim>\<open>m[a:b, :]\<close> a range of rows.
\<close>

definition reshape_F :: "nat \<Rightarrow> nat \<Rightarrow> 'a list \<Rightarrow> py_error + 'a list list" where
  "reshape_F nrows ncols xs =
     (if length xs = nrows * ncols
      then Inr (map (\<lambda>i. map (\<lambda>j. xs ! (i + nrows * j)) [0..<ncols]) [0..<nrows])
      else Inl ValueError_reshape)"

definition column :: "'a list list \<Rightarrow> nat \<Rightarrow> 'a list" where
  "column m j = map (\<lambda>row. row ! j) m"

definition slice :: "nat \<Rightarrow> nat \<Rightarrow> 'a list \<Rightarrow> 'a list" where
  "slice a b xs = take (b - a) (drop a xs)"

text \<open>
  \<^verbatim>\<open>.astype('int16')\<close> of an integer array keeps the low 16 bits of each element. The
  arithmetic of an \<^verbatim>\<open>int16\<close> array is that of 16-bit words: it wraps around.
\<close>

definition astype_int16 :: "int \<Rightarrow> int16" where
  "astype_int16 v = word_of_int v"

subsection \<open>The frames of one file\<close>

text \<open>
  \<^verbatim>\<open>iframe = -words_reshaped[:, ifr].reshape(128, 100, order='F').astype('int16')\<close>: the
  unary minus binds less tightly than the calls, so the column is reshaped and cast first and
  the negation is taken on the \<^verbatim>\<open>int16\<close> array.
\<close>

definition decode_sample :: "int \<Rightarrow> int16" where
  "decode_sample v = - astype_int16 v"

definition iframe_of :: "int list list \<Rightarrow> nat \<Rightarrow> py_error + frame" where
  "iframe_of words_reshaped ifr =
     (case reshape_F 128 100 (column words_reshaped ifr) of
        Inl e \<Rightarrow> Inl e
      | Inr blk \<Rightarrow> Inr (map (map decode_sample) blk))"

text \<open>
  The two regions the loop cuts out of \<open>iframe\<close>: \<^verbatim>\<open>iframe[20:120, :]\<close>, which is yielded,
  and \<^verbatim>\<open>iframe[0:20, :]\<close>, which is stored in \<^verbatim>\<open>excess_frames\<close> and never read.
\<close>

definition frame_region :: "frame \<Rightarrow> frame" where
  "frame_region iframe = slice 20 120 iframe"

definition excess_region :: "frame \<Rightarrow> frame" where
  "excess_region iframe = slice 0 20 iframe"

text \<open>\<^verbatim>\<open>for ifr in range(n_frames): ... yield iframe[20:120, :]\<close>\<close>

fun frames_loop :: "int list list \<Rightarrow> nat list \<Rightarrow> frame gen" where
  "frames_loop words_reshaped [] = ([], None)"
| "frames_loop words_reshaped (ifr # rest) =
     (case iframe_of words_reshaped ifr of
        Inl e \<Rightarrow> ([], Some e)
      | Inr iframe \<Rightarrow>
          (case frames_loop words_reshaped rest of
             (fs, r) \<Rightarrow> (frame_region iframe # fs, r)))"

text \<open>
  The body of the loop over the files of a trial, from the buffer on:
  \<^verbatim>\<open>n_frames = int(len(words) / 12800)\<close>, the reshape into one column for each frame, and
  the loop over the frames. The quotient of two integers below \<open>2 ^ 53\<close> is rounded
  correctly, so \<^verbatim>\<open>int\<close> of it is the integer quotient.
\<close>

definition decode_buffer :: "byte list \<Rightarrow> frame gen" where
  "decode_buffer byte =
     (case struct_unpack_h byte of
        Inl e \<Rightarrow> ([], Some e)
      | Inr words \<Rightarrow>
          (let n_frames = length words div 12800 in
           case reshape_F 12800 n_frames words of
             Inl e \<Rightarrow> ([], Some e)
           | Inr words_reshaped \<Rightarrow> frames_loop words_reshaped [0..<n_frames]))"

definition decode_file :: "byte list \<Rightarrow> frame gen" where
  "decode_file content = decode_buffer (read_bytes content)"

section \<open>Values of the Python runtime\<close>

subsection \<open>Strings\<close>

text \<open>
  \<^verbatim>\<open>sub in s\<close>, \<^verbatim>\<open>s.replace(old, new)\<close> (all occurrences, left to right, not overlapping),
  \<^verbatim>\<open>s.strip()\<close> and \<^verbatim>\<open>s.split(sep)\<close> for a separator of one character. A header is taken to be
  ASCII text: the white space of \<^verbatim>\<open>strip\<close> is the ASCII part of Python's.
\<close>

fun str_in :: "string \<Rightarrow> string \<Rightarrow> bool" where
  "str_in sub [] = (sub = [])"
| "str_in sub (c # cs) = (prefix sub (c # cs) \<or> str_in sub cs)"

function str_replace :: "string \<Rightarrow> string \<Rightarrow> string \<Rightarrow> string" where
  "str_replace old new s =
     (if old = [] then new @ concat (map (\<lambda>c. c # new) s)
      else if s = [] then []
      else if prefix old s then new @ str_replace old new (drop (length old) s)
      else hd s # str_replace old new (tl s))"
  by pat_completeness auto
termination
  by (relation "measure (\<lambda>(old, new, s). length s)") auto

definition is_space :: "char \<Rightarrow> bool" where
  "is_space c = (of_char c \<in> {9, 10, 11, 12, 13, 28, 29, 30, 31, 32 :: nat})"

definition str_strip :: "string \<Rightarrow> string" where
  "str_strip s = rev (dropWhile is_space (rev (dropWhile is_space s)))"

fun str_split :: "char \<Rightarrow> string \<Rightarrow> string list" where
  "str_split sep [] = [[]]"
| "str_split sep (c # cs) =
     (if c = sep then [] # str_split sep cs
      else (case str_split sep cs of [] \<Rightarrow> [[c]] | w # ws \<Rightarrow> (c # w) # ws))"

subsection \<open>Floats\<close>

text \<open>
  A Python float is an IEEE 754 double: a finite value (a rational; the two zeros are not
  told apart, nothing here reads the sign of a zero), an infinity or a NaN. An operation
  computes the exact result and rounds it to the nearest double, ties to even:
  \<open>round_double\<close>, with 53 bits of significand, exponents from \<open>- 1022\<close> (below it the
  spacing of the subnormal numbers) and an infinity from \<open>2 ^ 1024\<close> on.
\<close>

datatype pyfloat = Fin rat | PInf | NInf | NaN

definition pow2 :: "int \<Rightarrow> rat" where
  "pow2 k = (if 0 \<le> k then 2 ^ nat k else 1 / 2 ^ nat (- k))"

definition ilog2 :: "rat \<Rightarrow> int" where
  "ilog2 a = (case quotient_of a of (p, q) \<Rightarrow>
     let k = bitlen p - bitlen q in if pow2 k \<le> a then k else k - 1)"

definition round_half_even :: "rat \<Rightarrow> int" where
  "round_half_even y = (let f = \<lfloor>y\<rfloor>; d = y - of_int f in
     if d < 1 / 2 then f else if 1 / 2 < d then f + 1 else if even f then f else f + 1)"

definition round_double :: "rat \<Rightarrow> pyfloat" where
  "round_double x =
     (if x = 0 then Fin 0
      else let a = \<bar>x\<bar>;
               e = max (ilog2 a) (- 1022);
               ulp = pow2 (e - 52);
               r = of_int (round_half_even (a / ulp)) * ulp
           in if pow2 1024 \<le> r then (if 0 < x then PInf else NInf)
              else Fin (if 0 < x then r else - r))"

text \<open>\<^verbatim>\<open>a / b\<close> on floats raises \<^verbatim>\<open>ZeroDivisionError\<close> for a zero divisor.\<close>

fun py_truediv :: "pyfloat \<Rightarrow> pyfloat \<Rightarrow> py_error + pyfloat" where
  "py_truediv a (Fin b) =
     (if b = 0 then Inl ZeroDivisionError
      else case a of
        Fin x \<Rightarrow> Inr (round_double (x / b))
      | PInf \<Rightarrow> Inr (if 0 < b then PInf else NInf)
      | NInf \<Rightarrow> Inr (if 0 < b then NInf else PInf)
      | NaN \<Rightarrow> Inr NaN)"
| "py_truediv a NaN = Inr NaN"
| "py_truediv (Fin x) PInf = Inr (Fin 0)"
| "py_truediv (Fin x) NInf = Inr (Fin 0)"
| "py_truediv a PInf = Inr NaN"
| "py_truediv a NInf = Inr NaN"

fun py_add :: "pyfloat \<Rightarrow> pyfloat \<Rightarrow> pyfloat" where
  "py_add (Fin x) (Fin y) = round_double (x + y)"
| "py_add NaN b = NaN"
| "py_add a NaN = NaN"
| "py_add PInf NInf = NaN"
| "py_add NInf PInf = NaN"
| "py_add PInf b = PInf"
| "py_add NInf b = NInf"
| "py_add a PInf = PInf"
| "py_add a NInf = NInf"

text \<open>\<^verbatim>\<open>a == b\<close> and \<^verbatim>\<open>a >= b\<close> on floats: a NaN compares unequal to everything.\<close>

fun py_float_eq :: "pyfloat \<Rightarrow> pyfloat \<Rightarrow> bool" where
  "py_float_eq NaN b = False"
| "py_float_eq a NaN = False"
| "py_float_eq a b = (a = b)"

fun py_float_ge :: "pyfloat \<Rightarrow> pyfloat \<Rightarrow> bool" where
  "py_float_ge NaN b = False"
| "py_float_ge a NaN = False"
| "py_float_ge PInf b = True"
| "py_float_ge a NInf = True"
| "py_float_ge NInf b = False"
| "py_float_ge a PInf = False"
| "py_float_ge (Fin x) (Fin y) = (y \<le> x)"

text \<open>
  The conversion of an integer to a float, as \<^verbatim>\<open>float(n)\<close> and as the left operand of
  \<^verbatim>\<open>n / x\<close>: \<^verbatim>\<open>OverflowError\<close> when the integer is too large.
\<close>

definition float_of_int :: "int \<Rightarrow> py_error + pyfloat" where
  "float_of_int n = (case round_double (of_int n) of Fin r \<Rightarrow> Inr (Fin r) | _ \<Rightarrow> Inl OverflowError)"

subsection \<open>Dates\<close>

text \<open>
  A naive \<^verbatim>\<open>datetime\<close> is its number of microseconds since the start of the calendar, an
  aware one has the offset of its time zone as well. Two aware values are equal when they are
  the same instant. \<^verbatim>\<open>pytz.timezone('EST')\<close> is five hours behind UTC all year.
  \<^verbatim>\<open>timedelta.seconds\<close> is the seconds field of the normalised difference (days, seconds,
  microseconds), between 0 and 86399 whatever the sign of the difference.
\<close>

type_synonym datetime = int

record aware_datetime =
  wall_clock :: datetime
  utcoffset :: int

definition localize_EST :: "datetime \<Rightarrow> aware_datetime" where
  "localize_EST dt = \<lparr>wall_clock = dt, utcoffset = - 18000000000\<rparr>"

definition aware_eq :: "aware_datetime \<Rightarrow> aware_datetime \<Rightarrow> bool" where
  "aware_eq a b = (wall_clock a - utcoffset a = wall_clock b - utcoffset b)"

definition timedelta_seconds :: "int \<Rightarrow> int" where
  "timedelta_seconds td = (td div 1000000) mod 86400"

subsection \<open>Conversions of the runtime, and the directory\<close>

text \<open>
  The built-in conversions from text are parameters of the model: \<^verbatim>\<open>float(s)\<close>, \<^verbatim>\<open>int(s)\<close> and
  \<^verbatim>\<open>datetime.strptime(s, '%Y/%m/%d %H:%M:%S')\<close>, each \<open>None\<close> where Python raises
  \<^verbatim>\<open>ValueError\<close>.
\<close>

record py_builtins =
  py_float :: "string \<Rightarrow> pyfloat option"
  py_int :: "string \<Rightarrow> int option"
  strptime :: "string \<Rightarrow> datetime option"

text \<open>
  The source directory: the names \<^verbatim>\<open>os.listdir\<close> returns, in its order; what the successive
  calls of \<^verbatim>\<open>readline\<close> return for a file opened as text; and the bytes of a file opened in
  binary mode. A file that cannot be opened is \<open>None\<close>.
\<close>

record directory =
  listing :: "string list"
  text_of :: "string \<Rightarrow> string list option"
  bytes_of :: "string \<Rightarrow> byte list option"

section \<open>The header parser: \<^verbatim>\<open>read_trial_meta\<close>\<close>

text \<open>
  The locals of \<^verbatim>\<open>read_trial_meta\<close>, each field \<open>st_x\<close> for the local \<^verbatim>\<open>x\<close>. A local that has
  not been assigned is \<open>None\<close>; reading it raises \<^verbatim>\<open>UnboundLocalError\<close>.
\<close>

record scan_state =
  st_acquisition_date :: "string option"
  st_sample_rate :: "pyfloat option"
  st_n_frames :: "int option"
  st_files_raw :: "string list"
  st_addftolist :: bool

definition scan_init :: scan_state where
  "scan_init = \<lparr>st_acquisition_date = None, st_sample_rate = None, st_n_frames = None,
     st_files_raw = [], st_addftolist = False\<rparr>"

text \<open>\<^verbatim>\<open>line.replace(l1, '').replace(l2, '') ... .strip()\<close>\<close>

definition field_text :: "string list \<Rightarrow> string \<Rightarrow> string" where
  "field_text labels line = str_strip (foldl (\<lambda>s l. str_replace l [] s) line labels)"

text \<open>
  \<^verbatim>\<open>sample_time = float(aux) / 1000.\<close> and \<^verbatim>\<open>sample_rate = 1 / sample_time\<close>
\<close>

definition rate_of_text :: "py_builtins \<Rightarrow> string \<Rightarrow> py_error + pyfloat" where
  "rate_of_text rt aux =
     (case py_float rt aux of
        None \<Rightarrow> Inl ValueError_float
      | Some x \<Rightarrow>
          (case py_truediv x (Fin 1000) of
             Inl e \<Rightarrow> Inl e
           | Inr sample_time \<Rightarrow> py_truediv (Fin 1) sample_time))"

text \<open>The body of the \<^verbatim>\<open>while\<close> loop, for one line.\<close>

definition scan_line :: "py_builtins \<Rightarrow> string \<Rightarrow> scan_state \<Rightarrow> py_error + scan_state" where
  "scan_line rt line s0 =
     (let s1 = (if str_in ''acquisition_date'' line
                then s0\<lparr>st_acquisition_date := Some (field_text [''acquisition_date'', ''=''] line)\<rparr>
                else s0)
      in case (if str_in ''sample_time'' line
               then (case rate_of_text rt (field_text [''sample_time'', ''='', ''msec''] line) of
                       Inl e \<Rightarrow> Inl e
                     | Inr r \<Rightarrow> Inr (s1\<lparr>st_sample_rate := Some r\<rparr>))
               else Inr s1) of
           Inl e \<Rightarrow> Inl e
         | Inr s2 \<Rightarrow>
             (case (if str_in ''page_frames'' line
                    then (case py_int rt (field_text [''page_frames'', ''=''] line) of
                            None \<Rightarrow> Inl ValueError_int
                          | Some n \<Rightarrow> Inr (s2\<lparr>st_n_frames := Some n\<rparr>))
                    else Inr s2) of
                Inl e \<Rightarrow> Inl e
              | Inr s3 \<Rightarrow>
                  (let s4 = (if st_addftolist s3
                             then s3\<lparr>st_files_raw := st_files_raw s3 @ [str_strip line]\<rparr>
                             else s3)
                   in Inr (if str_in ''Data-File-List'' line
                           then s4\<lparr>st_addftolist := True\<rparr> else s4))))"

text \<open>\<^verbatim>\<open>while line:\<close> ends at the first empty result of \<^verbatim>\<open>readline\<close>, the end of the file.\<close>

fun scan_lines :: "py_builtins \<Rightarrow> string list \<Rightarrow> scan_state \<Rightarrow> py_error + scan_state" where
  "scan_lines rt [] s = Inr s"
| "scan_lines rt (line # rest) s =
     (if line = [] then Inr s
      else case scan_line rt line s of
             Inl e \<Rightarrow> Inl e
           | Inr s' \<Rightarrow> scan_lines rt rest s')"

text \<open>
  After the loop: \<^verbatim>\<open>file_rsm = files_raw[0]\<close>, \<^verbatim>\<open>files_raw = files_raw[1:]\<close>, and the
  \<^verbatim>\<open>return\<close>, which reads \<^verbatim>\<open>acquisition_date\<close>, \<^verbatim>\<open>sample_rate\<close> and \<^verbatim>\<open>n_frames\<close> in this order.
\<close>

type_synonym trial_meta = "string \<times> string list \<times> string \<times> pyfloat \<times> int"

definition finish_meta :: "scan_state \<Rightarrow> py_error + trial_meta" where
  "finish_meta s =
     (case st_files_raw s of
        [] \<Rightarrow> Inl IndexError
      | file_rsm # rest \<Rightarrow>
          (case st_acquisition_date s of
             None \<Rightarrow> Inl UnboundLocalError
           | Some ad \<Rightarrow>
               (case st_sample_rate s of
                  None \<Rightarrow> Inl UnboundLocalError
                | Some sr \<Rightarrow>
                    (case st_n_frames s of
                       None \<Rightarrow> Inl UnboundLocalError
                     | Some nf \<Rightarrow> Inr (file_rsm, rest, ad, sr, nf)))))"

definition parse_header :: "py_builtins \<Rightarrow> string list \<Rightarrow> py_error + trial_meta" where
  "parse_header rt lines =
     (case scan_lines rt lines scan_init of
        Inl e \<Rightarrow> Inl e
      | Inr s \<Rightarrow> finish_meta s)"

definition read_trial_meta :: "py_builtins \<Rightarrow> directory \<Rightarrow> string \<Rightarrow> py_error + trial_meta" where
  "read_trial_meta rt d trial_meta =
     (case text_of d trial_meta of
        None \<Rightarrow> Inl FileNotFoundError
      | Some lines \<Rightarrow> parse_header rt lines)"

section \<open>The generator \<^verbatim>\<open>data_gen\<close>\<close>

text \<open>
  The loop over the raw-data files of the header, in the header's order. An exception ends
  the generator after the frames of the files before it. The \<^verbatim>\<open>n_frames\<close> of the header is
  bound by the call of \<^verbatim>\<open>read_trial_meta\<close> and assigned anew for every file before it is read.
  The line of progress the generator prints for each file is left out.
\<close>

fun data_gen_files :: "directory \<Rightarrow> string list \<Rightarrow> frame gen" where
  "data_gen_files d [] = ([], None)"
| "data_gen_files d (fraw # rest) =
     (case bytes_of d fraw of
        None \<Rightarrow> ([], Some FileNotFoundError)
      | Some content \<Rightarrow>
          (case decode_file content of
             (fs, Some e) \<Rightarrow> (fs, Some e)
           | (fs, None) \<Rightarrow>
               (case data_gen_files d rest of (fs', r) \<Rightarrow> (fs @ fs', r))))"

definition data_gen :: "py_builtins \<Rightarrow> directory \<Rightarrow> string \<Rightarrow> string \<Rightarrow> string \<Rightarrow> frame gen" where
  "data_gen rt d fname_prefix channel trial =
     (case read_trial_meta rt d (fname_prefix @ ''-'' @ trial @ ''_'' @ channel @ ''.rsh'') of
        Inl e \<Rightarrow> ([], Some e)
      | Inr (file_rsm, files_raw, acquisition_date, sample_rate, n_frames) \<Rightarrow>
          data_gen_files d files_raw)"

section \<open>The orchestrator: \<^verbatim>\<open>run_conversion\<close>\<close>

text \<open>
  The objects of \<^verbatim>\<open>pynwb\<close> and \<^verbatim>\<open>ndx_fret\<close> are records of the arguments they are built from, and
  the containers of the \<^verbatim>\<open>NWBFile\<close> are lists in the order of the additions. The \<^verbatim>\<open>data\<close> of a
  series is the generator handed to \<^verbatim>\<open>DataChunkIterator\<close>, that is its outcome when the writer
  consumes it. The checks these libraries make on their arguments are not part of the model,
  and the metadata dictionary is taken to hold every key the code reads.

  \<^verbatim>\<open>DataChunkIterator(data=..., buffer_size=10000, ...)\<close> is given no \<^verbatim>\<open>dtype\<close>, so its
  constructor pulls the first buffer from the generator, up to 10000 frames. An exception the
  generator raises in that stretch leaves the constructor, and with it \<^verbatim>\<open>run_conversion\<close>; a
  later one is met when the file is written.
\<close>

definition data_chunk_iterator :: "frame gen \<Rightarrow> py_error + frame gen" where
  "data_chunk_iterator g =
     (case g of
        (fs, Some e) \<Rightarrow> if length fs < 10000 then Inl e else Inr g
      | (fs, None) \<Rightarrow> Inr g)"

record optical_channel =
  oc_name :: string
  oc_description :: string
  oc_emission_lambda :: pyfloat

record series_meta =
  meta_fluorophore :: string
  meta_description :: string
  meta_unit :: string
  meta_optical_channel :: optical_channel

record metadata =
  meta_device_name :: string
  meta_fret_name :: string
  meta_excitation_lambda :: pyfloat
  meta_donor :: series_meta
  meta_acceptor :: series_meta

record fret_series =
  series_name :: string
  series_fluorophore :: string
  series_optical_channel :: optical_channel
  series_device :: string
  series_description :: string
  series_data :: "frame gen"
  series_starting_time :: pyfloat
  series_rate :: pyfloat
  series_unit :: string

record fret =
  fret_name :: string
  fret_excitation_lambda :: pyfloat
  fret_donor :: fret_series
  fret_acceptor :: fret_series

record nwbfile =
  session_start_time :: aware_datetime
  devices :: "string list"
  acquisition :: "fret list"
  trials :: "(pyfloat \<times> pyfloat) list option"

definition add_trial :: "pyfloat \<Rightarrow> pyfloat \<Rightarrow> nwbfile \<Rightarrow> nwbfile" where
  "add_trial start_time stop_time nwb =
     nwb\<lparr>trials := Some ((case trials nwb of None \<Rightarrow> [] | Some ts \<Rightarrow> ts) @ [(start_time, stop_time)])\<rparr>"

text \<open>
  \<^verbatim>\<open>tr_stop = relative_start_time + n_frames_A / sample_rate_A\<close>: the integer is converted to a
  float, then divided.
\<close>

definition trial_stop :: "pyfloat \<Rightarrow> int \<Rightarrow> pyfloat \<Rightarrow> py_error + pyfloat" where
  "trial_stop relative_start_time n_frames_A sample_rate_A =
     (case float_of_int n_frames_A of
        Inl e \<Rightarrow> Inl e
      | Inr n \<Rightarrow>
          (case py_truediv n sample_rate_A of
             Inl e \<Rightarrow> Inl e
           | Inr q \<Rightarrow> Inr (py_add relative_start_time q)))"

text \<open>
  The body of the loop over the trials. The result is the file as the body leaves it and the
  exception that ended it, if one did.
\<close>

definition run_trial ::
  "py_builtins \<Rightarrow> directory \<Rightarrow> metadata \<Rightarrow> string \<Rightarrow> bool \<Rightarrow> nwbfile \<Rightarrow> string \<Rightarrow>
   nwbfile \<times> py_error option" where
  "run_trial rt d md fname_prefix add_trials nwb tr =
     (case read_trial_meta rt d (fname_prefix @ ''-'' @ tr @ ''_A.rsh'') of
        Inl e \<Rightarrow> (nwb, Some e)
      | Inr (file_rsm_A, files_raw_A, acquisition_date_A, sample_rate_A, n_frames_A) \<Rightarrow>
     (case read_trial_meta rt d (fname_prefix @ ''-'' @ tr @ ''_B.rsh'') of
        Inl e \<Rightarrow> (nwb, Some e)
      | Inr (file_rsm_B, files_raw_B, acquisition_date_B, sample_rate_B, n_frames_B) \<Rightarrow>
     (case strptime rt acquisition_date_A of
        None \<Rightarrow> (nwb, Some ValueError_strptime)
      | Some absolute_start_time \<Rightarrow>
     (case float_of_int (timedelta_seconds
             (absolute_start_time - wall_clock (session_start_time nwb))) of
        Inl e \<Rightarrow> (nwb, Some e)
      | Inr relative_start_time \<Rightarrow>
          if acquisition_date_A \<noteq> acquisition_date_B
          then (nwb, Some (AssertionError
                 (''Acquisition date of channels do not match. Trial='' @ tr)))
          else if \<not> py_float_eq sample_rate_A sample_rate_B
          then (nwb, Some (AssertionError (''Sample rate of channels do not match. Trial='' @ tr)))
          else if n_frames_A \<noteq> n_frames_B
          then (nwb, Some (AssertionError
                 (''Number of frames of channels do not match. Trial='' @ tr)))
          else if \<not> py_float_ge relative_start_time (Fin 0)
          then (nwb, Some (AssertionError (''Starting time is negative. Trial='' @ tr)))
          else
     (case data_chunk_iterator (data_gen rt d fname_prefix ''A'' tr) of
        Inl e \<Rightarrow> (nwb, Some e)
      | Inr data_donor \<Rightarrow>
     (case data_chunk_iterator (data_gen rt d fname_prefix ''B'' tr) of
        Inl e \<Rightarrow> (nwb, Some e)
      | Inr data_acceptor \<Rightarrow>
            (let frets_donor = \<lparr>series_name = ''donor'',
                   series_fluorophore = meta_fluorophore (meta_donor md),
                   series_optical_channel = meta_optical_channel (meta_donor md),
                   series_device = meta_device_name md,
                   series_description = meta_description (meta_donor md),
                   series_data = data_donor,
                   series_starting_time = relative_start_time,
                   series_rate = sample_rate_A,
                   series_unit = meta_unit (meta_donor md)\<rparr>;
                 frets_acceptor = \<lparr>series_name = ''acceptor'',
                   series_fluorophore = meta_fluorophore (meta_acceptor md),
                   series_optical_channel = meta_optical_channel (meta_acceptor md),
                   series_device = meta_device_name md,
                   series_description = meta_description (meta_acceptor md),
                   series_data = data_acceptor,
                   series_starting_time = relative_start_time,
                   series_rate = sample_rate_B,
                   series_unit = meta_unit (meta_acceptor md)\<rparr>;
                 fret = \<lparr>fret_name = meta_fret_name md @ ''_'' @ tr,
                   fret_excitation_lambda = meta_excitation_lambda md,
                   fret_donor = frets_donor,
                   fret_acceptor = frets_acceptor\<rparr>;
                 nwb' = nwb\<lparr>acquisition := acquisition nwb @ [fret]\<rparr>
             in if add_trials
                then (case trial_stop relative_start_time n_frames_A sample_rate_A of
                        Inl e \<Rightarrow> (nwb', Some e)
                      | Inr tr_stop \<Rightarrow> (add_trial relative_start_time tr_stop nwb', None))
                else (nwb', None))))))))"

text \<open>\<^verbatim>\<open>for tr in trials_numbers:\<close> An exception leaves the loop.\<close>

fun run_trials ::
  "py_builtins \<Rightarrow> directory \<Rightarrow> metadata \<Rightarrow> string \<Rightarrow> bool \<Rightarrow> nwbfile \<Rightarrow> string list \<Rightarrow>
   nwbfile \<times> py_error option" where
  "run_trials rt d md fname_prefix add_trials nwb [] = (nwb, None)"
| "run_trials rt d md fname_prefix add_trials nwb (tr # rest) =
     (case run_trial rt d md fname_prefix add_trials nwb tr of
        (nwb', Some e) \<Rightarrow> (nwb', Some e)
      | (nwb', None) \<Rightarrow> run_trials rt d md fname_prefix add_trials nwb' rest)"

text \<open>
  \<^verbatim>\<open>[f.split('-')[1].replace('.rsh', '') for f in all_headers]\<close>: \<^verbatim>\<open>IndexError\<close> for a name
  without a hyphen.
\<close>

fun trials_numbers_of :: "string list \<Rightarrow> py_error + string list" where
  "trials_numbers_of [] = Inr []"
| "trials_numbers_of (f # fs) =
     (case str_split (CHR ''-'') f of
        _ # part # _ \<Rightarrow>
          (case trials_numbers_of fs of
             Inl e \<Rightarrow> Inl e
           | Inr ts \<Rightarrow> Inr (str_replace ''.rsh'' [] part # ts))
      | _ \<Rightarrow> Inl IndexError)"

text \<open>
  The result of \<^verbatim>\<open>run_conversion\<close>: the file as the call leaves it, the lines it printed, and the
  exception it raised, if it did. \<^verbatim>\<open>Path.glob('*.rsh')\<close> keeps the names that end in \<^verbatim>\<open>.rsh\<close>, in
  the order of the directory.
\<close>

record outcome =
  out_nwbfile :: nwbfile
  out_printed :: "string list"
  out_raised :: "py_error option"

definition all_headers_of :: "directory \<Rightarrow> string list" where
  "all_headers_of d =
     sort (filter (\<lambda>f. str_in ''.rsh'' f \<and> \<not> str_in ''_A'' f \<and> \<not> str_in ''_B'' f) (listing d))"

definition run_conversion :: "py_builtins \<Rightarrow> directory \<Rightarrow> metadata \<Rightarrow> nwbfile \<Rightarrow> outcome" where
  "run_conversion rt d md nwb =
     (case filter (suffix ''.rsh'') (listing d) of
        [] \<Rightarrow> \<lparr>out_nwbfile = nwb, out_printed = [], out_raised = Some OSError\<rparr>
      | first # _ \<Rightarrow>
     (case str_split (CHR ''-'') first of
        [] \<Rightarrow> \<lparr>out_nwbfile = nwb, out_printed = [], out_raised = Some IndexError\<rparr>
      | fname_prefix # _ \<Rightarrow>
     (case all_headers_of d of
        [] \<Rightarrow> \<lparr>out_nwbfile = nwb, out_printed = [], out_raised = Some IndexError\<rparr>
      | header # _ \<Rightarrow>
     (case read_trial_meta rt d header of
        Inl e \<Rightarrow> \<lparr>out_nwbfile = nwb, out_printed = [], out_raised = Some e\<rparr>
      | Inr (file_rsm, files_raw, acquisition_date, sample_rate, n_frames) \<Rightarrow>
     (case strptime rt acquisition_date of
        None \<Rightarrow> \<lparr>out_nwbfile = nwb, out_printed = [], out_raised = Some ValueError_strptime\<rparr>
      | Some start \<Rightarrow>
          if \<not> aware_eq (localize_EST start) (session_start_time nwb)
          then \<lparr>out_nwbfile = nwb,
                out_printed =
                  [''Session start time in current nwbfile does not match the start time from rsd files.'',
                   ''Ophys data conversion aborted.''],
                out_raised = None\<rparr>
          else
            (let nwb1 = nwb\<lparr>devices := devices nwb @ [meta_device_name md]\<rparr>;
                 add_trials = (trials nwb1 = None);
                 printed = (if add_trials then []
                   else [''Trials already exist in current nwb file. Ophys trials intervals not added.''])
             in case trials_numbers_of (all_headers_of d) of
                  Inl e \<Rightarrow> \<lparr>out_nwbfile = nwb1, out_printed = printed, out_raised = Some e\<rparr>
                | Inr trials_numbers \<Rightarrow>
                    (case run_trials rt d md fname_prefix add_trials nwb1 trials_numbers of
                       (nwb2, r) \<Rightarrow>
                         \<lparr>out_nwbfile = nwb2, out_printed = printed, out_raised = r\<rparr>)))))))"

section \<open>Example inputs\<close>

text \<open>
  A header as the instrument writes it, with its \<^verbatim>\<open>page_frames\<close> value left open, conversions
  that know the numbers and the two dates of the example headers (a date is its number of
  microseconds since the first day of year 1; \<^verbatim>\<open>float('1e-310')\<close> is the subnormal double
  \<open>20240225330731 / 2 ^ 1074\<close>), and a directory with one channel of one trial.
\<close>

definition example_header :: "string \<Rightarrow> string list" where
  "example_header page_frames =
     [''acquisition_date=2019/10/24 16:34:35\<newline>'',
      ''sample_time = 10 msec\<newline>'',
      ''page_frames = '' @ page_frames @ ''\<newline>'',
      ''Data-File-List\<newline>'',
      ''m-1.rsm\<newline>'',
      ''m-1(0).rsd\<newline>'']"

definition example_builtins :: py_builtins where
  "example_builtins = \<lparr>
     py_float = (\<lambda>s. if s = ''10'' then Some (Fin 10)
                     else if s = ''1e-310'' then Some (Fin (20240225330731 * pow2 (- 1074)))
                     else None),
     py_int = (\<lambda>s. if s = ''5'' then Some 5 else if s = ''7'' then Some 7 else None),
     strptime = (\<lambda>s. if s = ''2019/10/24 16:34:35'' then Some 63707531675000000
                     else if s = ''2019/10/24 16:34:25'' then Some 63707531665000000
                     else None)\<rparr>"

definition example_directory :: "string \<Rightarrow> byte list \<Rightarrow> directory" where
  "example_directory page_frames content = \<lparr>
     listing = [''m-1.rsh'', ''m-1_A.rsh'', ''m-1(0).rsd''],
     text_of = (\<lambda>name. if name = ''m-1_A.rsh'' then Some (example_header page_frames) else None),
     bytes_of = (\<lambda>name. if name = ''m-1(0).rsd'' then Some content else None)\<rparr>"

text \<open>
  Three malformed headers, a header with a sample time of \<open>1e-310\<close> milliseconds, and a
  directory that opens every name as a given header.
\<close>

definition header_without_sentinel :: "string list" where
  "header_without_sentinel =
     [''acquisition_date=2019/10/24 16:34:35\<newline>'',
      ''sample_time = 10 msec\<newline>'',
      ''page_frames = 5\<newline>'']"

definition header_without_page_frames :: "string list" where
  "header_without_page_frames =
     [''acquisition_date=2019/10/24 16:34:35\<newline>'',
      ''sample_time = 10 msec\<newline>'',
      ''Data-File-List\<newline>'',
      ''m-1.rsm\<newline>'',
      ''m-1(0).rsd\<newline>'']"

definition header_bad_sample_time :: "string list" where
  "header_bad_sample_time =
     [''acquisition_date=2019/10/24 16:34:35\<newline>'',
      ''sample_time = abc msec\<newline>'',
      ''page_frames = 5\<newline>'',
      ''Data-File-List\<newline>'',
      ''m-1.rsm\<newline>'',
      ''m-1(0).rsd\<newline>'']"

definition header_tiny_sample_time :: "string list" where
  "header_tiny_sample_time =
     [''acquisition_date=2019/10/24 16:34:35\<newline>'',
      ''sample_time = 1e-310 msec\<newline>'',
      ''page_frames = 5\<newline>'',
      ''Data-File-List\<newline>'',
      ''m-1.rsm\<newline>'',
      ''m-1(0).rsd\<newline>'']"

definition directory_of_header :: "string list \<Rightarrow> directory" where
  "directory_of_header lines =
     \<lparr>listing = [], text_of = (\<lambda>name. Some lines), bytes_of = (\<lambda>name. None)\<rparr>"

text \<open>
  A session of two trials, 10 and 2, with a header, two channel headers and a raw-data file of
  one frame each. Trial 2 was acquired ten seconds before trial 10, whose header sorts first;
  the file's session start is the date of that first header.
\<close>

definition trial_header :: "string \<Rightarrow> string \<Rightarrow> string list" where
  "trial_header date trial =
     [''acquisition_date='' @ date @ ''\<newline>'',
      ''sample_time = 10 msec\<newline>'',
      ''page_frames = 5\<newline>'',
      ''Data-File-List\<newline>'',
      ''m-'' @ trial @ ''.rsm\<newline>'',
      ''m-'' @ trial @ ''(0).rsd\<newline>'']"

definition example_session :: directory where
  "example_session = \<lparr>
     listing = [''m-10(0).rsd'', ''m-10.rsh'', ''m-10.rsm'', ''m-10_A.rsh'', ''m-10_B.rsh'',
                ''m-2(0).rsd'', ''m-2.rsh'', ''m-2.rsm'', ''m-2_A.rsh'', ''m-2_B.rsh''],
     text_of = (\<lambda>name.
       if name \<in> set [''m-10.rsh'', ''m-10_A.rsh'', ''m-10_B.rsh'']
       then Some (trial_header ''2019/10/24 16:34:35'' ''10'')
       else if name \<in> set [''m-2.rsh'', ''m-2_A.rsh'', ''m-2_B.rsh'']
       then Some (trial_header ''2019/10/24 16:34:25'' ''2'')
       else None),
     bytes_of = (\<lambda>name.
       if name \<in> set [''m-10(0).rsd'', ''m-2(0).rsd''] then Some (replicate 25600 0)
       else None)\<rparr>"

definition example_metadata :: metadata where
  "example_metadata = \<lparr>
     meta_device_name = ''Device'',
     meta_fret_name = ''FRET'',
     meta_excitation_lambda = Fin 482,
     meta_donor = \<lparr>meta_fluorophore = ''mCitrine'', meta_description = ''donor series'',
       meta_unit = ''no unit'',
       meta_optical_channel = \<lparr>oc_name = ''optical_channel_donor'',
         oc_description = ''donor channel'', oc_emission_lambda = Fin 483\<rparr>\<rparr>,
     meta_acceptor = \<lparr>meta_fluorophore = ''mKate2'', meta_description = ''acceptor series'',
       meta_unit = ''no unit'',
       meta_optical_channel = \<lparr>oc_name = ''optical_channel_acceptor'',
         oc_description = ''acceptor channel'', oc_emission_lambda = Fin 593\<rparr>\<rparr>\<rparr>"

definition example_nwbfile :: nwbfile where
  "example_nwbfile = \<lparr>
     session_start_time = localize_EST 63707531675000000,
     devices = [], acquisition = [], trials = None\<rparr>"

section \<open>Properties of the decoder\<close>

text \<open>Ranges such as \<open>[0..<12800]\<close> stay folded: the proofs reason about their elements.\<close>

declare upt_rec_numeral [simp del]

lemma length_le_words: "length (le_words bs) = length bs div 2"
  by (induction bs rule: le_words.induct) simp_all

lemma struct_unpack_h_even:
  "even (length byte) \<Longrightarrow> struct_unpack_h byte = Inr (map sint (le_words byte))"
  by (auto simp: struct_unpack_h_def)

lemma decode_sample_sint: "decode_sample (sint w) = - w"
  by (simp add: decode_sample_def astype_int16_def)

lemma decode_sample_cast_after: "decode_sample v = astype_int16 (- v)"
  by (simp add: decode_sample_def astype_int16_def)

lemma iframe_of_reshaped:
  assumes "length wr = 12800"
  shows "iframe_of wr ifr =
    Inr (map (\<lambda>i. map (\<lambda>j. decode_sample (wr ! (i + 128 * j) ! ifr)) [0..<100]) [0..<128])"
proof -
  have "reshape_F 128 100 (column wr ifr) =
      Inr (map (\<lambda>i. map (\<lambda>j. column wr ifr ! (i + 128 * j)) [0..<100]) [0..<128])"
    using assms by (simp add: reshape_F_def column_def)
  moreover have "column wr ifr ! (i + 128 * j) = wr ! (i + 128 * j) ! ifr"
    if "i < 128" "j < 100" for i j
  proof -
    have "i + 128 * j < length wr" using that assms by simp
    then show ?thesis by (simp add: column_def)
  qed
  ultimately show ?thesis
    by (simp add: iframe_of_def)
qed

lemma frames_loop_total:
  assumes "length wr = 12800"
  shows "frames_loop wr idxs =
    (map (\<lambda>ifr. frame_region
       (map (\<lambda>i. map (\<lambda>j. decode_sample (wr ! (i + 128 * j) ! ifr)) [0..<100]) [0..<128]))
       idxs, None)"
  by (induction idxs) (simp_all add: iframe_of_reshaped [OF assms])

lemma multiple_25600:
  assumes "n mod 25600 = (0::nat)"
  shows "even n" and "n div 2 = 12800 * (n div 2 div 12800)"
proof -
  from assms obtain k where k: "n = 25600 * k" by (auto elim: dvdE simp: mod_eq_0_iff_dvd)
  show "even n" by (simp add: k)
  have "n div 2 = 12800 * k" by (simp add: k)
  then show "n div 2 = 12800 * (n div 2 div 12800)" by simp
qed

lemma decode_buffer_reshaped:
  assumes ev: "even (length byte)"
    and len: "length byte div 2 = 12800 * (length byte div 2 div 12800)"
  shows "decode_buffer byte =
    (map (\<lambda>ifr. frame_region
       (map (\<lambda>i. map (\<lambda>j. - (le_words byte ! (12800 * ifr + 128 * j + i))) [0..<100]) [0..<128]))
       [0..<length byte div 2 div 12800], None)"
proof -
  let ?words = "map sint (le_words byte)"
  let ?n = "length byte div 2 div 12800"
  have lw: "length (le_words byte) = 12800 * ?n"
    using len by (simp add: length_le_words)
  define wr where "wr = map (\<lambda>i. map (\<lambda>j. ?words ! (i + 12800 * j)) [0..<?n]) [0..<12800]"
  have rs: "reshape_F 12800 ?n ?words = Inr wr"
    using lw by (simp add: reshape_F_def wr_def)
  have lwr: "length wr = 12800" by (simp add: wr_def)
  have cell: "decode_sample (wr ! (i + 128 * j) ! ifr) = - (le_words byte ! (12800 * ifr + 128 * j + i))"
    if "i < 128" "j < 100" "ifr < ?n" for i j ifr
  proof -
    have a: "i + 128 * j < 12800" using that by simp
    have "12800 * ifr + 12800 \<le> 12800 * ?n" using that(3) by simp
    with a have b: "i + 128 * j + 12800 * ifr < length (le_words byte)"
      unfolding lw by linarith
    have "wr ! (i + 128 * j) ! ifr = ?words ! (i + 128 * j + 12800 * ifr)"
      using a that(3) by (simp add: wr_def)
    also have "\<dots> = sint (le_words byte ! (i + 128 * j + 12800 * ifr))"
      using b by simp
    finally show ?thesis by (simp add: decode_sample_sint ac_simps)
  qed
  have blk: "map (\<lambda>i. map (\<lambda>j. decode_sample (wr ! (i + 128 * j) ! ifr)) [0..<100]) [0..<128] =
      map (\<lambda>i. map (\<lambda>j. - (le_words byte ! (12800 * ifr + 128 * j + i))) [0..<100]) [0..<128]"
    if "ifr < ?n" for ifr
    using cell that by simp
  have "decode_buffer byte = frames_loop wr [0..<?n]"
    using rs by (simp add: decode_buffer_def struct_unpack_h_even [OF ev] length_le_words)
  also have "\<dots> = (map (\<lambda>ifr. frame_region
       (map (\<lambda>i. map (\<lambda>j. decode_sample (wr ! (i + 128 * j) ! ifr)) [0..<100]) [0..<128]))
       [0..<?n], None)"
    by (rule frames_loop_total [OF lwr])
  also have "\<dots> = (map (\<lambda>ifr. frame_region
       (map (\<lambda>i. map (\<lambda>j. - (le_words byte ! (12800 * ifr + 128 * j + i))) [0..<100]) [0..<128]))
       [0..<?n], None)"
    by (simp add: blk)
  finally show ?thesis .
qed

lemma length_frame_region:
  "length (frame_region (map f [0..<128])) = 100"
  by (simp add: frame_region_def slice_def)

lemma nth_frame_region:
  "r < 100 \<Longrightarrow> frame_region (map f [0..<128]) ! r = f (r + 20)"
  by (simp add: frame_region_def slice_def ac_simps)




lemma sint_neg_int16:
  "sint (- w) = (if sint w = - 32768 then - 32768 else - sint w)" for w :: int16
proof -
  have r: "- 32768 \<le> sint w" "sint w \<le> 32767"
    using sint_range_size [of w] by (simp_all add: word_size)
  show ?thesis
  proof (cases "sint w = - 32768")
    case True
    then show ?thesis by (simp add: sint_word_minus)
  next
    case False
    with r have "- 32768 \<le> - sint w" "- sint w < 32768" by simp_all
    then have "signed_take_bit 15 (- sint w) = - sint w"
      by (simp add: signed_take_bit_int_eq_self)
    then show ?thesis using False by (simp add: sint_word_minus)
  qed
qed

lemma le_words_concat_replicate:
  "le_words (concat (replicate n [lo, hi])) = replicate n (word_cat hi lo)"
  by (induction n) simp_all

lemma length_concat_replicate2:
  "length (concat (replicate n [a, b])) = 2 * n"
  by (induction n) simp_all

text \<open>
  C10. The sign inversion of the decoder wraps in 16 bits: a decoded value is \<open>- 32768\<close>
  where the raw sample is \<open>- 32768\<close>, and the negation of the raw sample for every other
  raw sample. (The code casts first and negates the \<^verbatim>\<open>int16\<close> array; negating first and
  casting after gives the same values.)
\<close>

theorem decode_negation_wraps:
  assumes "length byte mod 25600 = 0" and "k < length byte div 2 div 12800"
    and "r < 100" and "c < 100"
  shows "sint (fst (decode_buffer byte) ! k ! r ! c) =
    (if sint (le_words byte ! (k * 12800 + c * 128 + (r + 20))) = - 32768 then - 32768
     else - sint (le_words byte ! (k * 12800 + c * 128 + (r + 20))))"
proof -
  have "fst (decode_buffer byte) ! k ! r ! c =
      - (le_words byte ! (12800 * k + 128 * c + (r + 20)))"
    using assms(2-4)
    by (simp add: decode_buffer_reshaped [OF multiple_25600 [OF assms(1)]] nth_frame_region)
  then show ?thesis
    by (simp add: sint_neg_int16 ac_simps)
qed

theorem decode_negation_wraps_witness:
  "sint (fst (decode_buffer (concat (replicate 12800 [0, 128]))) ! 0 ! 0 ! 0) = - 32768"
proof -
  let ?b = "concat (replicate 12800 [0, 128 :: byte])"
  have h: "length ?b mod 25600 = 0" "0 < length ?b div 2 div 12800" "(0::nat) < 100"
    by (simp_all add: length_concat_replicate2)
  have "sint (le_words ?b ! (0 * 12800 + 0 * 128 + (0 + 20))) = - 32768"
    by (simp add: le_words_concat_replicate word_cat_eq)
  with decode_negation_wraps [OF h(1) h(2) h(3) h(3)] show ?thesis
    by simp
qed


lemma sint_unnegate_decode_sample:
  assumes "- 32768 \<le> v" and "v \<le> 32767"
  shows "sint (- decode_sample v) = v"
proof -
  have "- decode_sample v = (word_of_int v :: int16)"
    by (simp add: decode_sample_def astype_int16_def)
  moreover have "sint (word_of_int v :: int16) = v"
    using assms by (simp add: sint_sbintrunc' signed_take_bit_int_eq_self)
  ultimately show ?thesis by simp
qed

lemma excess_then_frame:
  "excess_region (map f [0..<128]) @ frame_region (map f [0..<128]) = map f [0..<120]"
proof -
  have "take 20 (map f [0..<128]) @ take 100 (drop 20 (map f [0..<128])) =
      take 120 (map f [0..<128])"
    by (simp add: take_add [of 20 100, symmetric] del: take_map drop_map)
  then show ?thesis
    by (simp add: excess_region_def frame_region_def slice_def take_map)
qed

lemma reshape_F_block:
  "length col = 12800 \<Longrightarrow> reshape_F 128 100 col =
     Inr (map (\<lambda>i. map (\<lambda>j. col ! (i + 128 * j)) [0..<100]) [0..<128])"
  by (simp add: reshape_F_def)

text \<open>
  C4, as amended. The excess region stacked on the frame region, with every sample negated
  again in 16-bit arithmetic, is rows 0 to 119 of the 128-row block of raw samples. Rows 120
  to 127 are in neither region.
\<close>

theorem excess_frame_split:
  assumes "length wr = 12800"
    and "\<forall>v\<in>set (column wr ifr). - 32768 \<le> v \<and> v \<le> 32767"
  shows "\<exists>blk iframe. reshape_F 128 100 (column wr ifr) = Inr blk \<and>
     iframe_of wr ifr = Inr iframe \<and>
     map (map (\<lambda>v. sint (- v))) (excess_region iframe @ frame_region iframe) = take 120 blk"
proof -
  let ?col = "column wr ifr"
  let ?blk = "map (\<lambda>i. map (\<lambda>j. ?col ! (i + 128 * j)) [0..<100]) [0..<128]"
  let ?iframe = "map (\<lambda>i. map (\<lambda>j. decode_sample (?col ! (i + 128 * j))) [0..<100]) [0..<128]"
  have lc: "length ?col = 12800" using assms(1) by (simp add: column_def)
  have b: "reshape_F 128 100 ?col = Inr ?blk" by (rule reshape_F_block [OF lc])
  have i: "iframe_of wr ifr = Inr ?iframe"
    by (simp add: iframe_of_def b comp_def)
  have cell: "sint (- decode_sample (?col ! (i + 128 * j))) = ?col ! (i + 128 * j)"
    if "i < 120" "j < 100" for i j
  proof -
    have "i + 128 * j < length ?col" using that lc by simp
    then have "?col ! (i + 128 * j) \<in> set ?col" by (rule nth_mem)
    with assms(2) show ?thesis by (simp add: sint_unnegate_decode_sample)
  qed
  have "map (map (\<lambda>v. sint (- v))) (excess_region ?iframe @ frame_region ?iframe) =
      map (\<lambda>i. map (\<lambda>j. sint (- decode_sample (?col ! (i + 128 * j)))) [0..<100]) [0..<120]"
    by (simp only: excess_then_frame) (simp add: comp_def)
  also have "\<dots> = map (\<lambda>i. map (\<lambda>j. ?col ! (i + 128 * j)) [0..<100]) [0..<120]"
    using cell by simp
  also have "\<dots> = take 120 ?blk"
    by (simp add: take_map)
  finally show ?thesis using b i by blast
qed

theorem excess_frame_split_witness:
  "\<exists>blk iframe. reshape_F 128 100 (column (replicate 12800 [0]) 0) = Inr blk \<and>
     iframe_of (replicate 12800 [0]) 0 = Inr iframe \<and>
     map (map (\<lambda>v. sint (- v))) (excess_region iframe @ frame_region iframe) = take 120 blk"
proof -
  have "length (replicate 12800 [0::int]) = 12800" by simp
  moreover have "\<forall>v\<in>set (column (replicate 12800 [0::int]) 0). - 32768 \<le> v \<and> v \<le> 32767"
    by (simp add: column_def)
  ultimately show ?thesis by (rule excess_frame_split)
qed

text \<open>
  C4 as stated fails: the two regions have 120 rows together, the block has 128.
\<close>

theorem excess_frame_split_counterexample:
  "\<exists>blk iframe. reshape_F 128 100 (column (replicate 12800 [0]) 0) = Inr blk \<and>
     iframe_of (replicate 12800 [0]) 0 = Inr iframe \<and>
     length blk = 128 \<and>
     length (excess_region iframe @ frame_region iframe) = 120 \<and>
     map (map (\<lambda>v. sint (- v))) (excess_region iframe @ frame_region iframe) \<noteq> blk"
proof -
  let ?wr = "replicate 12800 [0::int]"
  let ?col = "column ?wr 0"
  let ?blk = "map (\<lambda>i. map (\<lambda>j. ?col ! (i + 128 * j)) [0..<100]) [0..<128]"
  let ?iframe = "map (\<lambda>i. map (\<lambda>j. decode_sample (?wr ! (i + 128 * j) ! 0)) [0..<100]) [0..<128]"
  have lc: "length ?col = 12800" by (simp add: column_def)
  have b: "reshape_F 128 100 ?col = Inr ?blk" by (rule reshape_F_block [OF lc])
  have i: "iframe_of ?wr 0 = Inr ?iframe" by (rule iframe_of_reshaped) simp
  have l: "length (excess_region ?iframe @ frame_region ?iframe) = 120"
    by (simp only: excess_then_frame) simp
  have "length (map (map (\<lambda>v. sint (- v))) (excess_region ?iframe @ frame_region ?iframe)) \<noteq>
      length ?blk"
    using l by simp
  then have "map (map (\<lambda>v. sint (- v))) (excess_region ?iframe @ frame_region ?iframe) \<noteq> ?blk"
    by metis
  moreover have "length ?blk = 128" by simp
  ultimately show ?thesis using b i l by blast
qed

lemma decode_buffer_bad_geometry:
  assumes "even (length byte)" and "length byte div 2 mod 12800 \<noteq> 0"
  shows "decode_buffer byte = ([], Some ValueError_reshape)"
proof -
  have "length byte div 2 \<noteq> 12800 * (length byte div 2 div 12800)"
    using assms(2) by (metis mod_mult_self1_is_0)
  then show ?thesis
    by (simp add: decode_buffer_def struct_unpack_h_even [OF assms(1)] reshape_F_def
        length_le_words)
qed

text \<open>
  C7, as amended. A file is read in one operation of at most 1,000,000,000 bytes. Of a
  longer file the decoder sees the first 1,000,000,000 bytes: 500,000,000 samples, which is
  not a multiple of 12,800, so the reshape raises \<^verbatim>\<open>ValueError\<close> and no frame of the file is
  yielded.
\<close>

theorem decode_file_oversize:
  assumes "max_read < length content"
  shows "read_bytes content = take 1000000000 content \<and>
    length (read_bytes content) = 1000000000 \<and>
    decode_file content = ([], Some ValueError_reshape)"
proof -
  have l: "length (read_bytes content) = 1000000000"
    using assms by (simp add: read_bytes_def max_read_def)
  have "decode_buffer (read_bytes content) = ([], Some ValueError_reshape)"
    by (rule decode_buffer_bad_geometry) (simp_all add: l)
  with l show ?thesis by (simp add: decode_file_def read_bytes_def max_read_def)
qed

theorem decode_file_oversize_witness:
  "read_bytes (replicate 1000000001 0) = take 1000000000 (replicate 1000000001 0) \<and>
    length (read_bytes (replicate 1000000001 0)) = 1000000000 \<and>
    decode_file (replicate 1000000001 0) = ([], Some ValueError_reshape)"
proof -
  have "max_read < length (replicate 1000000001 (0::byte))" by (simp add: max_read_def)
  then show ?thesis by (rule decode_file_oversize)
qed

text \<open>
  C7 as stated fails: no check of the file's size exists. The exception of a file of
  1,000,000,001 bytes is the one the reshape raises, the same as for a file of two bytes.
\<close>

theorem capacity_error_counterexample:
  "decode_file (replicate 1000000001 0) = ([], Some ValueError_reshape) \<and>
   decode_file (replicate 1000000001 0) = decode_file [0, 0]"
proof -
  have "max_read < length (replicate 1000000001 (0::byte))" by (simp add: max_read_def)
  then have "length (read_bytes (replicate 1000000001 (0::byte))) = 1000000000"
    by (simp add: read_bytes_def max_read_def)
  then have a: "decode_file (replicate 1000000001 0) = ([], Some ValueError_reshape)"
    unfolding decode_file_def by (intro decode_buffer_bad_geometry) simp_all
  have "decode_buffer [0, 0] = ([], Some ValueError_reshape)"
    by (rule decode_buffer_bad_geometry) simp_all
  then have "decode_file [0, 0] = ([], Some ValueError_reshape)"
    by (simp add: decode_file_def read_bytes_def max_read_def)
  with a show ?thesis by simp
qed

section \<open>Properties of the header parser and the generator\<close>

lemma round_double_hundredth:
  "round_double (1 / 100) = Fin (5764607523034235 / 576460752303423488)"
  by code_simp

lemma round_double_hundred:
  "round_double (576460752303423488 / 5764607523034235) = Fin 100"
  by code_simp

lemma rate_of_text_10:
  "py_float rt ''10'' = Some (Fin 10) \<Longrightarrow> rate_of_text rt ''10'' = Inr (Fin 100)"
  by (simp add: rate_of_text_def round_double_hundredth round_double_hundred)

lemma parse_example_header:
  assumes "py_float rt ''10'' = Some (Fin 10)" and "py_int rt ''5'' = Some 5"
  shows "parse_header rt (example_header ''5'') =
    Inr (''m-1.rsm'', [''m-1(0).rsd''], ''2019/10/24 16:34:35'', Fin 100, 5)"
  using assms
  by (simp add: parse_header_def example_header_def scan_line_def scan_init_def finish_meta_def
      field_text_def str_strip_def is_space_def rate_of_text_10)

lemma data_gen_files_cong:
  "bytes_of d1 = bytes_of d2 \<Longrightarrow> data_gen_files d1 files = data_gen_files d2 files"
  by (induction files) (auto split: option.splits prod.splits)

lemma decode_buffer_count:
  "length (fst (decode_buffer byte)) =
     (if length byte mod 25600 = 0 then length byte div 2 div 12800 else 0)"
proof (cases "length byte mod 25600 = 0")
  case True
  then show ?thesis
    by (simp add: decode_buffer_reshaped [OF multiple_25600 [OF True]])
next
  case False
  show ?thesis
  proof (cases "even (length byte)")
    case odd: False
    then have "length byte \<noteq> 2 * (length byte div 2)" by presburger
    then show ?thesis using False by (simp add: decode_buffer_def struct_unpack_h_def)
  next
    case True
    then obtain k where k: "length byte = 2 * k" by (auto elim: evenE)
    have "k mod 12800 \<noteq> 0"
    proof
      assume "k mod 12800 = 0"
      then obtain j where "k = 12800 * j" by (auto elim: dvdE simp: mod_eq_0_iff_dvd)
      then have "length byte = 25600 * j" by (simp add: k)
      with False show False by simp
    qed
    then have "decode_buffer byte = ([], Some ValueError_reshape)"
      using True by (intro decode_buffer_bad_geometry) (simp_all add: k)
    then show ?thesis using False by simp
  qed
qed

lemma decode_file_count_ok:
  assumes "length (read_bytes content) mod 25600 = 0"
  shows "snd (decode_file content) = None"
    and "length (fst (decode_file content)) = length (read_bytes content) div 2 div 12800"
  by (simp_all add: decode_file_def decode_buffer_reshaped [OF multiple_25600 [OF assms]])

lemma data_gen_files_count:
  assumes "\<forall>f\<in>set files. \<exists>content. bytes_of d f = Some content \<and>
      length (read_bytes content) mod 25600 = 0"
  shows "snd (data_gen_files d files) = None \<and>
    length (fst (data_gen_files d files)) =
      sum_list (map (\<lambda>f. case bytes_of d f of None \<Rightarrow> 0
        | Some content \<Rightarrow> length (read_bytes content) div 2 div 12800) files)"
  using assms
proof (induction files)
  case Nil
  then show ?case by simp
next
  case (Cons f files)
  from Cons.prems obtain content where
    c: "bytes_of d f = Some content" "length (read_bytes content) mod 25600 = 0"
    by auto
  obtain fs where fs: "decode_file content = (fs, None)"
    "length fs = length (read_bytes content) div 2 div 12800"
    using decode_file_count_ok [OF c(2)] by (cases "decode_file content") auto
  obtain fs' where fs': "data_gen_files d files = (fs', None)"
    "length fs' = sum_list (map (\<lambda>f. case bytes_of d f of None \<Rightarrow> 0
        | Some content \<Rightarrow> length (read_bytes content) div 2 div 12800) files)"
    using Cons.IH Cons.prems by (cases "data_gen_files d files") auto
  show ?case by (simp add: c fs fs')
qed

text \<open>
  C3. Two runs of the generator on directories that differ in the header of the trial, with
  the same list of raw-data files and any two values of \<^verbatim>\<open>page_frames\<close>, and with the same
  raw-data files, yield the same frames and end the same way. The frame count of a file comes
  from its contents alone: it is the number of samples read divided by 12,800 when the bytes
  read are a multiple of 25,600, and no frame otherwise; and when every file of the header's
  list is such a multiple, the generator raises nothing and yields the sum of these counts,
  whatever \<^verbatim>\<open>page_frames\<close> the header declares.
\<close>

theorem data_gen_ignores_page_frames:
  assumes "read_trial_meta rt d1 (fname_prefix @ ''-'' @ trial @ ''_'' @ channel @ ''.rsh'') =
      Inr (rsm1, files, date1, rate1, n1)"
    and "read_trial_meta rt d2 (fname_prefix @ ''-'' @ trial @ ''_'' @ channel @ ''.rsh'') =
      Inr (rsm2, files, date2, rate2, n2)"
    and "bytes_of d1 = bytes_of d2"
  shows "data_gen rt d1 fname_prefix channel trial = data_gen rt d2 fname_prefix channel trial \<and>
    (\<forall>content. length (fst (decode_file content)) =
       (if length (read_bytes content) mod 25600 = 0
        then length (read_bytes content) div 2 div 12800 else 0)) \<and>
    ((\<forall>f\<in>set files. \<exists>content. bytes_of d1 f = Some content \<and>
         length (read_bytes content) mod 25600 = 0) \<longrightarrow>
       snd (data_gen rt d1 fname_prefix channel trial) = None \<and>
       length (fst (data_gen rt d1 fname_prefix channel trial)) =
         sum_list (map (\<lambda>f. case bytes_of d1 f of None \<Rightarrow> 0
           | Some content \<Rightarrow> length (read_bytes content) div 2 div 12800) files))"
proof (intro conjI allI impI)
  show "data_gen rt d1 fname_prefix channel trial = data_gen rt d2 fname_prefix channel trial"
    using assms(1,2) by (simp add: data_gen_def data_gen_files_cong [OF assms(3)])
  show "length (fst (decode_file content)) =
       (if length (read_bytes content) mod 25600 = 0
        then length (read_bytes content) div 2 div 12800 else 0)" for content
    unfolding decode_file_def by (rule decode_buffer_count)
  assume w: "\<forall>f\<in>set files. \<exists>content. bytes_of d1 f = Some content \<and>
      length (read_bytes content) mod 25600 = 0"
  have g: "data_gen rt d1 fname_prefix channel trial = data_gen_files d1 files"
    using assms(1) by (simp add: data_gen_def)
  show "snd (data_gen rt d1 fname_prefix channel trial) = None"
    using data_gen_files_count [OF w] by (simp add: g)
  show "length (fst (data_gen rt d1 fname_prefix channel trial)) =
      sum_list (map (\<lambda>f. case bytes_of d1 f of None \<Rightarrow> 0
        | Some content \<Rightarrow> length (read_bytes content) div 2 div 12800) files)"
    using data_gen_files_count [OF w] by (simp add: g)
qed

lemma parse_example_header_7:
  assumes "py_float rt ''10'' = Some (Fin 10)" and "py_int rt ''7'' = Some 7"
  shows "parse_header rt (example_header ''7'') =
    Inr (''m-1.rsm'', [''m-1(0).rsd''], ''2019/10/24 16:34:35'', Fin 100, 7)"
  using assms
  by (simp add: parse_header_def example_header_def scan_line_def scan_init_def finish_meta_def
      field_text_def str_strip_def is_space_def rate_of_text_10)

theorem data_gen_ignores_page_frames_witness:
  "data_gen example_builtins (example_directory ''5'' (replicate 256000 0)) ''m'' ''A'' ''1'' =
   data_gen example_builtins (example_directory ''7'' (replicate 256000 0)) ''m'' ''A'' ''1'' \<and>
   snd (data_gen example_builtins (example_directory ''5'' (replicate 256000 0))
     ''m'' ''A'' ''1'') = None \<and>
   length (fst (data_gen example_builtins (example_directory ''5'' (replicate 256000 0))
     ''m'' ''A'' ''1'')) = 10 \<and>
   length (fst (data_gen example_builtins (example_directory ''7'' (replicate 256000 0))
     ''m'' ''A'' ''1'')) = 10 \<and>
   length (fst (decode_file (replicate 256000 0))) = 10"
proof -
  let ?d5 = "example_directory ''5'' (replicate 256000 0)"
  let ?d7 = "example_directory ''7'' (replicate 256000 0)"
  have a: "read_trial_meta example_builtins ?d5 (''m'' @ ''-'' @ ''1'' @ ''_'' @ ''A'' @ ''.rsh'') =
      Inr (''m-1.rsm'', [''m-1(0).rsd''], ''2019/10/24 16:34:35'', Fin 100, 5)"
    by (simp add: read_trial_meta_def example_directory_def parse_example_header
        example_builtins_def)
  have b: "read_trial_meta example_builtins ?d7 (''m'' @ ''-'' @ ''1'' @ ''_'' @ ''A'' @ ''.rsh'') =
      Inr (''m-1.rsm'', [''m-1(0).rsd''], ''2019/10/24 16:34:35'', Fin 100, 7)"
    by (simp add: read_trial_meta_def example_directory_def parse_example_header_7
        example_builtins_def)
  have c: "bytes_of ?d5 = bytes_of ?d7"
    by (simp add: example_directory_def)
  have r: "read_bytes (replicate 256000 (0::byte)) = replicate 256000 0"
    by (simp add: read_bytes_def max_read_def)
  have w: "\<forall>f\<in>set [''m-1(0).rsd'']. \<exists>content. bytes_of ?d5 f = Some content \<and>
      length (read_bytes content) mod 25600 = 0"
    by (simp add: example_directory_def r)
  have s: "sum_list (map (\<lambda>f. case bytes_of ?d5 f of None \<Rightarrow> 0
      | Some content \<Rightarrow> length (read_bytes content) div 2 div 12800) [''m-1(0).rsd'']) = 10"
    by (simp add: example_directory_def r)
  note t = data_gen_ignores_page_frames [OF a b c]
  from t have e: "data_gen example_builtins ?d7 ''m'' ''A'' ''1'' =
      data_gen example_builtins ?d5 ''m'' ''A'' ''1''"
    by (elim conjE) (rule sym)
  from t w have n: "snd (data_gen example_builtins ?d5 ''m'' ''A'' ''1'') = None"
    and "length (fst (data_gen example_builtins ?d5 ''m'' ''A'' ''1'')) =
      sum_list (map (\<lambda>f. case bytes_of ?d5 f of None \<Rightarrow> 0
        | Some content \<Rightarrow> length (read_bytes content) div 2 div 12800) [''m-1(0).rsd''])"
    by blast+
  then have l: "length (fst (data_gen example_builtins ?d5 ''m'' ''A'' ''1'')) = 10"
    by (simp only: s)
  from t have "length (fst (decode_file (replicate 256000 0))) =
      (if length (read_bytes (replicate 256000 (0::byte))) mod 25600 = 0
       then length (read_bytes (replicate 256000 (0::byte))) div 2 div 12800 else 0)"
    by blast
  then have p: "length (fst (decode_file (replicate 256000 0))) = 10"
    by (simp add: r)
  from n l p show ?thesis by (simp add: e)
qed

lemma decode_file_in_bound:
  "length content \<le> max_read \<Longrightarrow> decode_file content = decode_buffer content"
  by (simp add: decode_file_def read_bytes_def)

lemma read_example_header:
  assumes "py_float rt ''10'' = Some (Fin 10)" and "py_int rt ''5'' = Some 5"
  shows "read_trial_meta rt (example_directory ''5'' content) ''m-1_A.rsh'' =
    Inr (''m-1.rsm'', [''m-1(0).rsd''], ''2019/10/24 16:34:35'', Fin 100, 5)"
  by (simp add: read_trial_meta_def example_directory_def parse_example_header [OF assms])

lemma data_gen_example:
  assumes "py_float rt ''10'' = Some (Fin 10)" and "py_int rt ''5'' = Some 5"
    and "length content = 256000"
  shows "data_gen rt (example_directory ''5'' content) ''m'' ''A'' ''1'' =
    (map (\<lambda>ifr. frame_region
       (map (\<lambda>i. map (\<lambda>j. - (le_words content ! (12800 * ifr + 128 * j + i))) [0..<100]) [0..<128]))
       [0..<10], None)"
proof -
  have m: "length content mod 25600 = 0" using assms(3) by simp
  have "decode_file content = decode_buffer content"
    by (rule decode_file_in_bound) (simp add: assms(3) max_read_def)
  then have "decode_file content = (map (\<lambda>ifr. frame_region
       (map (\<lambda>i. map (\<lambda>j. - (le_words content ! (12800 * ifr + 128 * j + i))) [0..<100]) [0..<128]))
       [0..<10], None)"
    by (simp add: decode_buffer_reshaped [OF multiple_25600 [OF m]] assms(3))
  moreover have "bytes_of (example_directory ''5'' content) ''m-1(0).rsd'' = Some content"
    by (simp add: example_directory_def)
  ultimately show ?thesis
    using read_example_header [OF assms(1,2), of content]
    by (simp add: data_gen_def)
qed

text \<open>
  C2, as amended. For the example header, which declares an acquisition date,
  \<^verbatim>\<open>sample_time = 10 msec\<close> and \<^verbatim>\<open>page_frames = 5\<close> and lists one bitmap file and one raw-data
  file, and a raw-data file of 256,000 bytes (128,000 samples), the parsed sample rate is
  \<open>100.0\<close> and the generator yields exactly 10 frames of 100 rows of 100 values.
\<close>

theorem end_to_end_frames:
  assumes "py_float rt ''10'' = Some (Fin 10)" and "py_int rt ''5'' = Some 5"
    and "length content = 256000"
  shows "read_trial_meta rt (example_directory ''5'' content) ''m-1_A.rsh'' =
      Inr (''m-1.rsm'', [''m-1(0).rsd''], ''2019/10/24 16:34:35'', Fin 100, 5) \<and>
    (\<exists>fs. data_gen rt (example_directory ''5'' content) ''m'' ''A'' ''1'' = (fs, None) \<and>
       length fs = 10 \<and>
       (\<forall>k<10. length (fs ! k) = 100 \<and> (\<forall>r<100. length (fs ! k ! r) = 100)))"
proof -
  let ?fs = "map (\<lambda>ifr. frame_region
       (map (\<lambda>i. map (\<lambda>j. - (le_words content ! (12800 * ifr + 128 * j + i))) [0..<100]) [0..<128]))
       [0..<10]"
  have "length (?fs ! k) = 100" if "k < 10" for k
    using that by (simp add: length_frame_region)
  moreover have "length (?fs ! k ! r) = 100" if "k < 10" "r < 100" for k r
    using that by (simp add: nth_frame_region)
  moreover have "length ?fs = 10" by simp
  ultimately show ?thesis
    using data_gen_example [OF assms] read_example_header [OF assms(1,2), of content]
    by blast
qed

theorem end_to_end_frames_witness:
  "read_trial_meta example_builtins (example_directory ''5'' (replicate 256000 0)) ''m-1_A.rsh'' =
      Inr (''m-1.rsm'', [''m-1(0).rsd''], ''2019/10/24 16:34:35'', Fin 100, 5) \<and>
    (\<exists>fs. data_gen example_builtins (example_directory ''5'' (replicate 256000 0))
         ''m'' ''A'' ''1'' = (fs, None) \<and>
       length fs = 10 \<and> length (fs ! 0) = 100 \<and> length (fs ! 9 ! 99) = 100)"
proof -
  have h: "py_float example_builtins ''10'' = Some (Fin 10)"
    "py_int example_builtins ''5'' = Some 5"
    "length (replicate 256000 (0::byte)) = 256000"
    by (simp_all add: example_builtins_def)
  from end_to_end_frames [OF h] obtain fs where
    a: "read_trial_meta example_builtins (example_directory ''5'' (replicate 256000 0))
        ''m-1_A.rsh'' = Inr (''m-1.rsm'', [''m-1(0).rsd''], ''2019/10/24 16:34:35'', Fin 100, 5)"
    and b: "data_gen example_builtins (example_directory ''5'' (replicate 256000 0))
        ''m'' ''A'' ''1'' = (fs, None)"
    and c: "length fs = 10"
    and d: "\<forall>k<10. length (fs ! k) = 100 \<and> (\<forall>r<100. length (fs ! k ! r) = 100)"
    by blast
  from d have "length (fs ! 0) = 100" "length (fs ! 9 ! 99) = 100" by simp_all
  with a b c show ?thesis by blast
qed

text \<open>
  C2 as stated fails: 128,000 samples are 10 blocks of 12,800, and the generator yields 10
  frames, not the 5 of the header.
\<close>

theorem end_to_end_counterexample:
  "length (fst (data_gen example_builtins (example_directory ''5'' (replicate 256000 0))
      ''m'' ''A'' ''1'')) = 10 \<and>
   length (fst (data_gen example_builtins (example_directory ''5'' (replicate 256000 0))
      ''m'' ''A'' ''1'')) \<noteq> 5 \<and>
   snd (data_gen example_builtins (example_directory ''5'' (replicate 256000 0))
      ''m'' ''A'' ''1'') = None"
proof -
  have h: "py_float example_builtins ''10'' = Some (Fin 10)"
    "py_int example_builtins ''5'' = Some 5"
    "length (replicate 256000 (0::byte)) = 256000"
    by (simp_all add: example_builtins_def)
  show ?thesis by (simp add: data_gen_example [OF h])
qed

lemma scan_line_fields:
  assumes "scan_line rt line s = Inr s'"
  shows "\<not> str_in ''Data-File-List'' line \<Longrightarrow> st_addftolist s' = st_addftolist s"
    and "\<not> st_addftolist s \<Longrightarrow> st_files_raw s' = st_files_raw s"
    and "\<not> str_in ''acquisition_date'' line \<Longrightarrow> st_acquisition_date s' = st_acquisition_date s"
    and "\<not> str_in ''sample_time'' line \<Longrightarrow> st_sample_rate s' = st_sample_rate s"
    and "\<not> str_in ''page_frames'' line \<Longrightarrow> st_n_frames s' = st_n_frames s"
  using assms
  by (auto simp: scan_line_def Let_def split: if_splits sum.splits option.splits)

lemma scan_lines_no_sentinel:
  assumes "scan_lines rt lines s = Inr s'"
    and "\<forall>l\<in>set lines. \<not> str_in ''Data-File-List'' l"
    and "\<not> st_addftolist s"
  shows "st_files_raw s' = st_files_raw s \<and> \<not> st_addftolist s'"
  using assms
proof (induction lines arbitrary: s)
  case Nil
  then show ?case by simp
next
  case (Cons line rest)
  show ?case
  proof (cases "line = []")
    case True
    with Cons.prems show ?thesis by simp
  next
    case False
    with Cons.prems(1) obtain s1 where
      s1: "scan_line rt line s = Inr s1" and rest: "scan_lines rt rest s1 = Inr s'"
      by (auto split: sum.splits)
    from Cons.prems(2) have ns: "\<not> str_in ''Data-File-List'' line" by simp
    have "st_addftolist s1 = st_addftolist s" "st_files_raw s1 = st_files_raw s"
      using scan_line_fields(1,2) [OF s1] ns Cons.prems(3) by simp_all
    moreover have "st_files_raw s' = st_files_raw s1 \<and> \<not> st_addftolist s'"
      using Cons.IH [OF rest] Cons.prems(2,3) \<open>st_addftolist s1 = st_addftolist s\<close> by simp
    ultimately show ?thesis by simp
  qed
qed

lemma scan_lines_preserves:
  assumes "scan_lines rt lines s = Inr s'"
    and "\<And>l a b. l \<in> set lines \<Longrightarrow> scan_line rt l a = Inr b \<Longrightarrow> f b = f a"
  shows "f s' = f s"
  using assms
proof (induction lines arbitrary: s)
  case Nil
  then show ?case by simp
next
  case (Cons line rest)
  show ?case
  proof (cases "line = []")
    case True
    with Cons.prems(1) show ?thesis by simp
  next
    case False
    with Cons.prems(1) obtain s1 where
      s1: "scan_line rt line s = Inr s1" and rest: "scan_lines rt rest s1 = Inr s'"
      by (auto split: sum.splits)
    have "f s1 = f s" using Cons.prems(2) [OF _ s1] by simp
    moreover have "f s' = f s1"
    proof (rule Cons.IH [OF rest])
      fix l a b
      assume "l \<in> set rest" and "scan_line rt l a = Inr b"
      then show "f b = f a" using Cons.prems(2) [of l a b] by simp
    qed
    ultimately show ?thesis by simp
  qed
qed

lemma scan_lines_absent:
  assumes "scan_lines rt lines s = Inr s'"
  shows "\<forall>l\<in>set lines. \<not> str_in ''acquisition_date'' l \<Longrightarrow>
      st_acquisition_date s' = st_acquisition_date s"
    and "\<forall>l\<in>set lines. \<not> str_in ''sample_time'' l \<Longrightarrow> st_sample_rate s' = st_sample_rate s"
    and "\<forall>l\<in>set lines. \<not> str_in ''page_frames'' l \<Longrightarrow> st_n_frames s' = st_n_frames s"
proof -
  show "st_acquisition_date s' = st_acquisition_date s"
    if "\<forall>l\<in>set lines. \<not> str_in ''acquisition_date'' l"
    using assms by (rule scan_lines_preserves) (use that scan_line_fields(3) in blast)
  show "st_sample_rate s' = st_sample_rate s"
    if "\<forall>l\<in>set lines. \<not> str_in ''sample_time'' l"
    using assms by (rule scan_lines_preserves) (use that scan_line_fields(4) in blast)
  show "st_n_frames s' = st_n_frames s"
    if "\<forall>l\<in>set lines. \<not> str_in ''page_frames'' l"
    using assms by (rule scan_lines_preserves) (use that scan_line_fields(5) in blast)
qed

lemma scan_lines_append:
  assumes "[] \<notin> set pre" and "scan_lines rt pre s = Inr s1"
  shows "scan_lines rt (pre @ rest) s = scan_lines rt rest s1"
  using assms by (induction pre arbitrary: s) (auto split: sum.splits)

lemma scan_line_bad_sample_time:
  assumes "str_in ''sample_time'' line"
    and "py_float rt (field_text [''sample_time'', ''='', ''msec''] line) = None"
  shows "scan_line rt line s = Inl ValueError_float"
  using assms by (simp add: scan_line_def rate_of_text_def Let_def)

text \<open>
  C6. The parser fails with \<^verbatim>\<open>IndexError\<close> (at \<^verbatim>\<open>files_raw[0]\<close>) when no line holds the sentinel
  and the scan itself raises nothing; with \<^verbatim>\<open>IndexError\<close> or, where the file list is not empty,
  \<^verbatim>\<open>UnboundLocalError\<close> (at the \<^verbatim>\<open>return\<close>) when no line holds one of the three fields; and with
  the \<^verbatim>\<open>ValueError\<close> of \<^verbatim>\<open>float\<close> at the first line that raises, when it is a \<^verbatim>\<open>sample_time\<close> line
  whose text is not a number. The first two are the spec's FormatError, the third its
  ParseError.
\<close>

theorem read_trial_meta_failures:
  assumes "text_of d trial_meta = Some lines"
  shows "(scan_lines rt lines scan_init = Inr s \<and>
      (\<forall>l\<in>set lines. \<not> str_in ''Data-File-List'' l) \<longrightarrow>
        read_trial_meta rt d trial_meta = Inl IndexError) \<and>
    (scan_lines rt lines scan_init = Inr s \<and>
      ((\<forall>l\<in>set lines. \<not> str_in ''acquisition_date'' l) \<or>
       (\<forall>l\<in>set lines. \<not> str_in ''sample_time'' l) \<or>
       (\<forall>l\<in>set lines. \<not> str_in ''page_frames'' l)) \<longrightarrow>
        read_trial_meta rt d trial_meta =
          Inl (if st_files_raw s = [] then IndexError else UnboundLocalError)) \<and>
    (lines = pre @ line # post \<and> [] \<notin> set pre \<and> scan_lines rt pre scan_init = Inr s1 \<and>
      line \<noteq> [] \<and> str_in ''sample_time'' line \<and>
      py_float rt (field_text [''sample_time'', ''='', ''msec''] line) = None \<longrightarrow>
        read_trial_meta rt d trial_meta = Inl ValueError_float)"
proof (intro conjI impI)
  assume a: "scan_lines rt lines scan_init = Inr s \<and>
      (\<forall>l\<in>set lines. \<not> str_in ''Data-File-List'' l)"
  have "\<not> st_addftolist scan_init" by (simp add: scan_init_def)
  with a have "st_files_raw s = st_files_raw scan_init"
    using scan_lines_no_sentinel [of rt lines scan_init s] by simp
  then have "st_files_raw s = []" by (simp add: scan_init_def)
  with a show "read_trial_meta rt d trial_meta = Inl IndexError"
    by (simp add: read_trial_meta_def assms parse_header_def finish_meta_def)
next
  assume a: "scan_lines rt lines scan_init = Inr s \<and>
      ((\<forall>l\<in>set lines. \<not> str_in ''acquisition_date'' l) \<or>
       (\<forall>l\<in>set lines. \<not> str_in ''sample_time'' l) \<or>
       (\<forall>l\<in>set lines. \<not> str_in ''page_frames'' l))"
  then have sc: "scan_lines rt lines scan_init = Inr s" by simp
  from a have "st_acquisition_date s = None \<or> st_sample_rate s = None \<or> st_n_frames s = None"
    using scan_lines_absent [OF sc] by (auto simp: scan_init_def)
  then have "finish_meta s = Inl (if st_files_raw s = [] then IndexError else UnboundLocalError)"
    by (auto simp: finish_meta_def split: list.splits option.splits)
  then show "read_trial_meta rt d trial_meta =
      Inl (if st_files_raw s = [] then IndexError else UnboundLocalError)"
    by (simp add: read_trial_meta_def assms parse_header_def sc)
next
  assume a: "lines = pre @ line # post \<and> [] \<notin> set pre \<and> scan_lines rt pre scan_init = Inr s1 \<and>
      line \<noteq> [] \<and> str_in ''sample_time'' line \<and>
      py_float rt (field_text [''sample_time'', ''='', ''msec''] line) = None"
  then have "scan_lines rt lines scan_init = scan_lines rt (line # post) s1"
    using scan_lines_append [of pre rt scan_init s1 "line # post"] by simp
  also have "\<dots> = Inl ValueError_float"
    using a by (simp add: scan_line_bad_sample_time)
  finally show "read_trial_meta rt d trial_meta = Inl ValueError_float"
    by (simp add: read_trial_meta_def assms parse_header_def)
qed

theorem read_trial_meta_failures_witness:
  "read_trial_meta example_builtins (directory_of_header header_without_sentinel) ''m-1_A.rsh'' =
     Inl IndexError \<and>
   read_trial_meta example_builtins (directory_of_header header_without_page_frames) ''m-1_A.rsh'' =
     Inl UnboundLocalError \<and>
   read_trial_meta example_builtins (directory_of_header header_bad_sample_time) ''m-1_A.rsh'' =
     Inl ValueError_float"
proof -
  let ?rt = example_builtins
  let ?acq = "''acquisition_date=2019/10/24 16:34:35\<newline>''"
  let ?s0 = "\<lparr>st_acquisition_date = Some ''2019/10/24 16:34:35'', st_sample_rate = Some (Fin 100),
     st_n_frames = Some 5, st_files_raw = [], st_addftolist = False\<rparr>"
  let ?s1 = "\<lparr>st_acquisition_date = Some ''2019/10/24 16:34:35'', st_sample_rate = Some (Fin 100),
     st_n_frames = None, st_files_raw = [''m-1.rsm'', ''m-1(0).rsd''], st_addftolist = True\<rparr>"
  let ?s2 = "\<lparr>st_acquisition_date = Some ''2019/10/24 16:34:35'', st_sample_rate = None,
     st_n_frames = None, st_files_raw = [], st_addftolist = False\<rparr>"
  have f: "py_float ?rt ''10'' = Some (Fin 10)" by (simp add: example_builtins_def)
  have t: "text_of (directory_of_header lines) ''m-1_A.rsh'' = Some lines" for lines
    by (simp add: directory_of_header_def)
  have a: "scan_lines ?rt header_without_sentinel scan_init = Inr ?s0"
    by (simp add: header_without_sentinel_def scan_line_def scan_init_def field_text_def
        str_strip_def is_space_def rate_of_text_10 [OF f]) (simp add: example_builtins_def)
  have b: "scan_lines ?rt header_without_page_frames scan_init = Inr ?s1"
    by (simp add: header_without_page_frames_def scan_line_def scan_init_def field_text_def
        str_strip_def is_space_def rate_of_text_10 [OF f])
  have c: "header_bad_sample_time = [?acq] @ ''sample_time = abc msec\<newline>'' #
      [''page_frames = 5\<newline>'', ''Data-File-List\<newline>'', ''m-1.rsm\<newline>'', ''m-1(0).rsd\<newline>'']"
    by (simp add: header_bad_sample_time_def)
  have c1: "scan_lines ?rt [?acq] scan_init = Inr ?s2"
    by (simp add: scan_line_def scan_init_def field_text_def str_strip_def is_space_def)
  have c2: "py_float ?rt (field_text [''sample_time'', ''='', ''msec'']
      ''sample_time = abc msec\<newline>'') = None"
    by (simp add: field_text_def str_strip_def is_space_def example_builtins_def)
  have 1: "read_trial_meta ?rt (directory_of_header header_without_sentinel) ''m-1_A.rsh'' =
      Inl IndexError"
    using read_trial_meta_failures [OF t, of ?rt header_without_sentinel ?s0] a
    by (simp add: header_without_sentinel_def)
  have 2: "read_trial_meta ?rt (directory_of_header header_without_page_frames) ''m-1_A.rsh'' =
      Inl UnboundLocalError"
    using read_trial_meta_failures [OF t, of ?rt header_without_page_frames ?s1] b
    by (simp add: header_without_page_frames_def)
  have 3: "read_trial_meta ?rt (directory_of_header header_bad_sample_time) ''m-1_A.rsh'' =
      Inl ValueError_float"
    using read_trial_meta_failures [OF t, of ?rt header_bad_sample_time _ "[?acq]"
        "''sample_time = abc msec\<newline>''" _ ?s2] c c1 c2
    by simp
  from 1 2 3 show ?thesis by simp
qed

section \<open>Properties of the orchestrator\<close>

lemma round_half_even_of_int: "round_half_even (of_int z) = z"
  by (simp add: round_half_even_def)

lemma ilog2_of_int_le:
  assumes "0 < n" and "n < 2 ^ 53"
  shows "ilog2 (of_int n) \<le> 52"
proof -
  have "bitlen n \<le> 53" using assms(2) by (simp add: bitlen_le_iff_power)
  moreover have "bitlen (1::int) = 1" by (simp add: bitlen_alt_def)
  ultimately show ?thesis by (simp add: ilog2_def Let_def)
qed

lemma round_double_of_int:
  assumes "0 \<le> n" and "n < 2 ^ 53"
  shows "round_double (of_int n) = Fin (of_int n)"
proof (cases "n = 0")
  case True
  then show ?thesis by (simp add: round_double_def)
next
  case False
  with assms have pos: "0 < n" by simp
  define e where "e = max (ilog2 (of_int n)) (- 1022)"
  have e: "e \<le> 52" using ilog2_of_int_le [OF pos assms(2)] by (simp add: e_def)
  define m where "m = nat (52 - e)"
  have ulp: "pow2 (e - 52) = 1 / 2 ^ m"
  proof (cases "e = 52")
    case True
    then show ?thesis by (simp add: pow2_def m_def)
  next
    case False
    with e have "e - 52 < 0" by simp
    then show ?thesis by (simp add: pow2_def m_def)
  qed
  have q: "rat_of_int n / pow2 (e - 52) = of_int (n * 2 ^ m)"
    by (simp add: ulp)
  have r: "of_int (round_half_even (rat_of_int n / pow2 (e - 52))) * pow2 (e - 52) = rat_of_int n"
    unfolding q round_half_even_of_int by (simp add: ulp)
  have "rat_of_int n < 2 ^ 53" using assms(2) by (metis of_int_less_numeral_power_cancel_iff)
  also have "\<dots> < (2::rat) ^ 1024" by (simp add: power_strict_increasing_iff)
  finally have big: "\<not> pow2 1024 \<le> rat_of_int n" by (simp add: pow2_def)
  have a: "\<bar>rat_of_int n\<bar> = rat_of_int n" using pos by simp
  show ?thesis
    using pos big r
    by (simp only: round_double_def Let_def a e_def [symmetric]) simp
qed

lemma timedelta_seconds_range: "0 \<le> timedelta_seconds td \<and> timedelta_seconds td < 86400"
  by (simp add: timedelta_seconds_def)

lemma float_of_timedelta_seconds:
  "float_of_int (timedelta_seconds td) = Inr (Fin (of_int (timedelta_seconds td)))"
proof -
  have "timedelta_seconds td < 2 ^ 53"
    using timedelta_seconds_range [of td] by simp
  then show ?thesis
    using timedelta_seconds_range [of td] by (simp add: float_of_int_def round_double_of_int)
qed

lemma relative_start_time_nonneg:
  "py_float_ge (Fin (of_int (timedelta_seconds td))) (Fin 0)"
  using timedelta_seconds_range [of td] by simp

lemma str_split_nonempty: "str_split sep s \<noteq> []"
  by (induction s) (auto split: list.splits)

text \<open>
  C9. When the date of the first session header, in the EST zone, is not the session start of
  the file, \<^verbatim>\<open>run_conversion\<close> prints its two lines and returns: nothing is raised, and the file is
  the one it was given, with no device, acquisition or trial added.
\<close>

theorem run_conversion_timestamp_mismatch:
  assumes "filter (suffix ''.rsh'') (listing d) \<noteq> []"
    and "all_headers_of d = header # hs"
    and "read_trial_meta rt d header = Inr (rsm, files, date, rate, n)"
    and "strptime rt date = Some start"
    and "\<not> aware_eq (localize_EST start) (session_start_time nwb)"
  shows "run_conversion rt d md nwb =
    \<lparr>out_nwbfile = nwb,
     out_printed =
       [''Session start time in current nwbfile does not match the start time from rsd files.'',
        ''Ophys data conversion aborted.''],
     out_raised = None\<rparr>"
proof -
  from assms(1) obtain first rest where f: "filter (suffix ''.rsh'') (listing d) = first # rest"
    by (cases "filter (suffix ''.rsh'') (listing d)") simp_all
  obtain fname_prefix parts where p: "str_split (CHR ''-'') first = fname_prefix # parts"
    using str_split_nonempty [of "CHR ''-''" first]
    by (cases "str_split (CHR ''-'') first") simp_all
  show ?thesis
    by (simp add: run_conversion_def f p assms(2-5))
qed

lemma headers_of_example_session:
  "filter (suffix ''.rsh'') (listing example_session) =
     [''m-10.rsh'', ''m-10_A.rsh'', ''m-10_B.rsh'', ''m-2.rsh'', ''m-2_A.rsh'', ''m-2_B.rsh'']"
  "all_headers_of example_session = [''m-10.rsh'', ''m-2.rsh'']"
  by code_simp+

lemma scan_trial_header:
  assumes "py_float rt ''10'' = Some (Fin 10)" and "py_int rt ''5'' = Some 5"
  shows "parse_header rt (trial_header ''2019/10/24 16:34:35'' ''10'') =
      Inr (''m-10.rsm'', [''m-10(0).rsd''], ''2019/10/24 16:34:35'', Fin 100, 5)"
    and "parse_header rt (trial_header ''2019/10/24 16:34:25'' ''2'') =
      Inr (''m-2.rsm'', [''m-2(0).rsd''], ''2019/10/24 16:34:25'', Fin 100, 5)"
  using assms
  by (simp_all add: parse_header_def trial_header_def scan_line_def scan_init_def finish_meta_def
      field_text_def str_strip_def is_space_def rate_of_text_10)

lemma read_example_session:
  "name \<in> set [''m-10.rsh'', ''m-10_A.rsh'', ''m-10_B.rsh''] \<Longrightarrow>
     read_trial_meta example_builtins example_session name =
       Inr (''m-10.rsm'', [''m-10(0).rsd''], ''2019/10/24 16:34:35'', Fin 100, 5)"
  "name \<in> set [''m-2.rsh'', ''m-2_A.rsh'', ''m-2_B.rsh''] \<Longrightarrow>
     read_trial_meta example_builtins example_session name =
       Inr (''m-2.rsm'', [''m-2(0).rsd''], ''2019/10/24 16:34:25'', Fin 100, 5)"
proof -
  have h: "py_float example_builtins ''10'' = Some (Fin 10)"
    "py_int example_builtins ''5'' = Some 5"
    by (simp_all add: example_builtins_def)
  show "name \<in> set [''m-10.rsh'', ''m-10_A.rsh'', ''m-10_B.rsh''] \<Longrightarrow>
     read_trial_meta example_builtins example_session name =
       Inr (''m-10.rsm'', [''m-10(0).rsd''], ''2019/10/24 16:34:35'', Fin 100, 5)"
    by (auto simp: read_trial_meta_def example_session_def scan_trial_header [OF h])
  show "name \<in> set [''m-2.rsh'', ''m-2_A.rsh'', ''m-2_B.rsh''] \<Longrightarrow>
     read_trial_meta example_builtins example_session name =
       Inr (''m-2.rsm'', [''m-2(0).rsd''], ''2019/10/24 16:34:25'', Fin 100, 5)"
    by (auto simp: read_trial_meta_def example_session_def scan_trial_header [OF h])
qed

theorem run_conversion_timestamp_mismatch_witness:
  "run_conversion example_builtins example_session example_metadata
     (example_nwbfile\<lparr>session_start_time := localize_EST 0\<rparr>) =
    \<lparr>out_nwbfile = example_nwbfile\<lparr>session_start_time := localize_EST 0\<rparr>,
     out_printed =
       [''Session start time in current nwbfile does not match the start time from rsd files.'',
        ''Ophys data conversion aborted.''],
     out_raised = None\<rparr>"
proof (rule run_conversion_timestamp_mismatch)
  show "filter (suffix ''.rsh'') (listing example_session) \<noteq> []"
    by (simp add: headers_of_example_session)
  show "all_headers_of example_session = ''m-10.rsh'' # [''m-2.rsh'']"
    by (simp add: headers_of_example_session)
  show "read_trial_meta example_builtins example_session ''m-10.rsh'' =
      Inr (''m-10.rsm'', [''m-10(0).rsd''], ''2019/10/24 16:34:35'', Fin 100, 5)"
    by (rule read_example_session) simp
  show "strptime example_builtins ''2019/10/24 16:34:35'' = Some 63707531675000000"
    by (simp add: example_builtins_def)
  show "\<not> aware_eq (localize_EST 63707531675000000)
      (session_start_time (example_nwbfile\<lparr>session_start_time := localize_EST 0\<rparr>))"
    by (simp add: aware_eq_def localize_EST_def)
qed

text \<open>
  The three comparisons of the two channels: when the dates, the sample rates or the frame
  counts of the headers differ, the body of the trial loop raises \<^verbatim>\<open>AssertionError\<close> and leaves
  the file as it found it, and the loop ends there, with the file as the trials before left
  it. No series of the trial has been built, so no generator of the trial exists.
\<close>

lemma run_trial_mismatch:
  assumes "read_trial_meta rt d (fname_prefix @ ''-'' @ tr @ ''_A.rsh'') =
      Inr (rsm_A, files_A, date_A, rate_A, n_A)"
    and "read_trial_meta rt d (fname_prefix @ ''-'' @ tr @ ''_B.rsh'') =
      Inr (rsm_B, files_B, date_B, rate_B, n_B)"
    and "strptime rt date_A = Some t"
    and "date_A \<noteq> date_B \<or> \<not> py_float_eq rate_A rate_B \<or> n_A \<noteq> n_B"
  shows "\<exists>msg. run_trial rt d md fname_prefix add_trials nwb tr = (nwb, Some (AssertionError msg))"
  using assms(1,2,4)
  by (auto simp: run_trial_def assms(3) float_of_timedelta_seconds)

lemma run_trials_append:
  assumes "run_trials rt d md fname_prefix add_trials nwb pre = (nwb1, None)"
  shows "run_trials rt d md fname_prefix add_trials nwb (pre @ rest) =
    run_trials rt d md fname_prefix add_trials nwb1 rest"
  using assms
  by (induction pre arbitrary: nwb) (auto split: prod.splits option.splits)

lemma run_trials_stops:
  assumes "run_trials rt d md fname_prefix add_trials nwb pre = (nwb1, None)"
    and "run_trial rt d md fname_prefix add_trials nwb1 tr = (nwb1, Some e)"
  shows "run_trials rt d md fname_prefix add_trials nwb (pre @ tr # post) = (nwb1, Some e)"
  by (simp add: run_trials_append [OF assms(1)] assms(2))

text \<open>
  The fourth assertion, \<^verbatim>\<open>relative_start_time >= 0.\<close>, cannot fail: \<open>relative_start_time_nonneg\<close>
  holds for every difference of dates, since \<^verbatim>\<open>timedelta.seconds\<close> is never negative.
\<close>

lemma float_of_small_int:
  "0 \<le> n \<Longrightarrow> n < 2 ^ 53 \<Longrightarrow> float_of_int n = Inr (Fin (of_int n))"
  by (simp add: float_of_int_def round_double_of_int)

lemma trial_stop_example:
  "trial_stop rel 5 (Fin 100) = Inr (py_add rel (round_double (1 / 20)))"
  using float_of_small_int [of 5] by (simp add: trial_stop_def)

lemma trials_numbers_example:
  "trials_numbers_of [''m-10.rsh'', ''m-2.rsh''] = Inr [''10'', ''2'']"
  "str_split (CHR ''-'') ''m-10.rsh'' = [''m'', ''10.rsh'']"
  by code_simp+

lemma float_of_int_examples:
  "float_of_int (timedelta_seconds 0) = Inr (Fin 0)"
  "float_of_int (timedelta_seconds (- 10000000)) = Inr (Fin 86390)"
  by (simp_all add: float_of_timedelta_seconds) (simp_all add: timedelta_seconds_def)

lemma data_chunk_iterator_done: "snd g = None \<Longrightarrow> data_chunk_iterator g = Inr g"
  by (cases g) (simp add: data_chunk_iterator_def)

lemma data_chunk_iterator_raises:
  "length fs < 10000 \<Longrightarrow> data_chunk_iterator (fs, Some e) = Inl e"
  by (simp add: data_chunk_iterator_def)

lemma decode_file_one_frame:
  "\<exists>fs. decode_file (replicate 25600 0) = (fs, None) \<and> length fs = 1"
proof -
  have m: "length (replicate 25600 (0::byte)) mod 25600 = 0" by simp
  have "decode_file (replicate 25600 0) = decode_buffer (replicate 25600 0)"
    by (rule decode_file_in_bound) (simp add: max_read_def)
  then show ?thesis
    by (simp add: decode_buffer_reshaped [OF multiple_25600 [OF m]])
qed

lemma data_gen_example_session:
  assumes "ch = ''A'' \<or> ch = ''B''" and "tr = ''10'' \<or> tr = ''2''"
  shows "snd (data_gen example_builtins example_session ''m'' ch tr) = None"
proof -
  obtain fs where fs: "decode_file (replicate 25600 0) = (fs, None)"
    using decode_file_one_frame by blast
  have b: "bytes_of example_session ''m-10(0).rsd'' = Some (replicate 25600 0)"
    "bytes_of example_session ''m-2(0).rsd'' = Some (replicate 25600 0)"
    by (simp_all add: example_session_def)
  have a: "read_trial_meta example_builtins example_session ''m-10_A.rsh'' =
      Inr (''m-10.rsm'', [''m-10(0).rsd''], ''2019/10/24 16:34:35'', Fin 100, 5)"
    "read_trial_meta example_builtins example_session ''m-10_B.rsh'' =
      Inr (''m-10.rsm'', [''m-10(0).rsd''], ''2019/10/24 16:34:35'', Fin 100, 5)"
    "read_trial_meta example_builtins example_session ''m-2_A.rsh'' =
      Inr (''m-2.rsm'', [''m-2(0).rsd''], ''2019/10/24 16:34:25'', Fin 100, 5)"
    "read_trial_meta example_builtins example_session ''m-2_B.rsh'' =
      Inr (''m-2.rsm'', [''m-2(0).rsd''], ''2019/10/24 16:34:25'', Fin 100, 5)"
    by (rule read_example_session, simp)+
  from assms show ?thesis
    by (auto simp: data_gen_def a b fs)
qed

lemma run_trial_example:
  assumes "(tr, rel) = (''10'', Fin 0) \<or> (tr, rel) = (''2'', Fin 86390)"
  shows "run_trial example_builtins example_session md ''m'' True
     \<lparr>session_start_time = localize_EST 63707531675000000, devices = dv, acquisition = acq,
      trials = ts\<rparr> tr =
   (\<lparr>session_start_time = localize_EST 63707531675000000, devices = dv,
     acquisition = acq @ [\<lparr>fret_name = meta_fret_name md @ ''_'' @ tr,
       fret_excitation_lambda = meta_excitation_lambda md,
       fret_donor = \<lparr>series_name = ''donor'',
         series_fluorophore = meta_fluorophore (meta_donor md),
         series_optical_channel = meta_optical_channel (meta_donor md),
         series_device = meta_device_name md,
         series_description = meta_description (meta_donor md),
         series_data = data_gen example_builtins example_session ''m'' ''A'' tr,
         series_starting_time = rel, series_rate = Fin 100,
         series_unit = meta_unit (meta_donor md)\<rparr>,
       fret_acceptor = \<lparr>series_name = ''acceptor'',
         series_fluorophore = meta_fluorophore (meta_acceptor md),
         series_optical_channel = meta_optical_channel (meta_acceptor md),
         series_device = meta_device_name md,
         series_description = meta_description (meta_acceptor md),
         series_data = data_gen example_builtins example_session ''m'' ''B'' tr,
         series_starting_time = rel, series_rate = Fin 100,
         series_unit = meta_unit (meta_acceptor md)\<rparr>\<rparr>],
     trials = Some ((case ts of None \<Rightarrow> [] | Some ts \<Rightarrow> ts) @
       [(rel, py_add rel (round_double (1 / 20)))])\<rparr>, None)"
proof -
  have a: "read_trial_meta example_builtins example_session ''m-10_A.rsh'' =
      Inr (''m-10.rsm'', [''m-10(0).rsd''], ''2019/10/24 16:34:35'', Fin 100, 5)"
    "read_trial_meta example_builtins example_session ''m-10_B.rsh'' =
      Inr (''m-10.rsm'', [''m-10(0).rsd''], ''2019/10/24 16:34:35'', Fin 100, 5)"
    "read_trial_meta example_builtins example_session ''m-2_A.rsh'' =
      Inr (''m-2.rsm'', [''m-2(0).rsd''], ''2019/10/24 16:34:25'', Fin 100, 5)"
    "read_trial_meta example_builtins example_session ''m-2_B.rsh'' =
      Inr (''m-2.rsm'', [''m-2(0).rsd''], ''2019/10/24 16:34:25'', Fin 100, 5)"
    by (rule read_example_session, simp)+
  have t: "strptime example_builtins ''2019/10/24 16:34:35'' = Some 63707531675000000"
    "strptime example_builtins ''2019/10/24 16:34:25'' = Some 63707531665000000"
    by (simp_all add: example_builtins_def)
  have g: "data_chunk_iterator (data_gen example_builtins example_session ''m'' ch n) =
      Inr (data_gen example_builtins example_session ''m'' ch n)"
    if "ch = ''A'' \<or> ch = ''B''" "n = ''10'' \<or> n = ''2''" for ch n
    by (rule data_chunk_iterator_done) (rule data_gen_example_session [OF that])
  from assms show ?thesis
  proof
    assume "(tr, rel) = (''10'', Fin 0)"
    then show ?thesis
      by (simp add: run_trial_def a t localize_EST_def float_of_int_examples trial_stop_example
          add_trial_def g)
  next
    assume "(tr, rel) = (''2'', Fin 86390)"
    then show ?thesis
      by (simp add: run_trial_def a t localize_EST_def float_of_int_examples trial_stop_example
          add_trial_def g)
  qed
qed

text \<open>
  C8, at the example session. Trial 2 was acquired ten seconds before the session start, the
  date of the header of trial 10. \<^verbatim>\<open>run_conversion\<close> raises nothing: it adds the series of trial
  2 with the starting time \<open>86390.0\<close>, the seconds field of minus ten seconds, and a trial
  interval that starts there.
\<close>

theorem trial_before_session_start_accepted:
  "out_raised (run_conversion example_builtins example_session example_metadata example_nwbfile)
     = None \<and>
   map fret_name (acquisition (out_nwbfile
     (run_conversion example_builtins example_session example_metadata example_nwbfile))) =
     [''FRET_10'', ''FRET_2''] \<and>
   map (\<lambda>f. series_starting_time (fret_donor f)) (acquisition (out_nwbfile
     (run_conversion example_builtins example_session example_metadata example_nwbfile))) =
     [Fin 0, Fin 86390] \<and>
   map (\<lambda>f. series_data (fret_donor f)) (acquisition (out_nwbfile
     (run_conversion example_builtins example_session example_metadata example_nwbfile))) =
     [data_gen example_builtins example_session ''m'' ''A'' ''10'',
      data_gen example_builtins example_session ''m'' ''A'' ''2''] \<and>
   map_option (map fst) (trials (out_nwbfile
     (run_conversion example_builtins example_session example_metadata example_nwbfile))) =
     Some [Fin 0, Fin 86390]"
proof -
  have h: "read_trial_meta example_builtins example_session ''m-10.rsh'' =
      Inr (''m-10.rsm'', [''m-10(0).rsd''], ''2019/10/24 16:34:35'', Fin 100, 5)"
    by (rule read_example_session) simp
  have t: "strptime example_builtins ''2019/10/24 16:34:35'' = Some 63707531675000000"
    by (simp add: example_builtins_def)
  have r10: "(''10'', Fin 0) = (''10'', Fin 0) \<or> (''10'', Fin 0) = (''2'', Fin 86390)"
    by simp
  have r2: "(''2'', Fin 86390) = (''10'', Fin 0) \<or> (''2'', Fin 86390) = (''2'', Fin 86390)"
    by simp
  show ?thesis
    by (simp add: run_conversion_def headers_of_example_session trials_numbers_example h t
        aware_eq_def example_nwbfile_def run_trial_example [OF r10] run_trial_example [OF r2])
      (simp add: example_metadata_def)
qed

section \<open>The sample rate in floating point\<close>

lemma pow2_powi: "pow2 k = 2 powi k"
  by (simp add: pow2_def power_int_def field_simps)

lemma pow2_pos: "0 < pow2 k"
  by (simp add: pow2_powi)

lemma pow2_add: "pow2 (i + j) = pow2 i * pow2 j"
  by (simp add: pow2_powi power_int_add)

lemma pow2_mono: "i \<le> j \<Longrightarrow> pow2 i \<le> pow2 j"
  by (simp add: pow2_powi power_int_increasing)

lemma pow2_less_cancel: "pow2 i < pow2 j \<Longrightarrow> i < j"
  using pow2_mono [of j i] by (cases "i < j") auto

lemma pow2_nat: "pow2 (int n) = 2 ^ n"
  by (simp add: pow2_def)

lemma ilog2_bounds:
  assumes "0 < a"
  shows "pow2 (ilog2 a) \<le> a" and "a < pow2 (ilog2 a + 1)"
proof -
  obtain p q where pq: "quotient_of a = (p, q)" by (cases "quotient_of a")
  have q: "0 < q" using quotient_of_denom_pos [OF pq] .
  have a: "a = of_int p / of_int q" using quotient_of_div [OF pq] .
  have p: "0 < p" using assms q by (simp add: a zero_less_divide_iff)
  define k where "k = bitlen p - bitlen q"
  have bp: "2 ^ nat (bitlen p - 1) \<le> p" "p < 2 ^ nat (bitlen p)"
    using bitlen_bounds [OF p] by simp_all
  have bq: "2 ^ nat (bitlen q - 1) \<le> q" "q < 2 ^ nat (bitlen q)"
    using bitlen_bounds [OF q] by simp_all
  have p1: "1 \<le> bitlen p" using p by (simp add: bitlen_alt_def)
  have q1: "1 \<le> bitlen q" using q by (simp add: bitlen_alt_def)
  have P: "pow2 (bitlen p - 1) \<le> of_int p" "rat_of_int p < pow2 (bitlen p)"
  proof -
    have "rat_of_int (2 ^ nat (bitlen p - 1)) \<le> of_int p" using bp(1) by (simp only: of_int_le_iff)
    then show "pow2 (bitlen p - 1) \<le> of_int p" using p1 by (simp add: pow2_def)
    have "rat_of_int p < of_int (2 ^ nat (bitlen p))" using bp(2) by (simp only: of_int_less_iff)
    then show "rat_of_int p < pow2 (bitlen p)" using p1 by (simp add: pow2_def)
  qed
  have Q: "pow2 (bitlen q - 1) \<le> of_int q" "rat_of_int q < pow2 (bitlen q)"
  proof -
    have "rat_of_int (2 ^ nat (bitlen q - 1)) \<le> of_int q" using bq(1) by (simp only: of_int_le_iff)
    then show "pow2 (bitlen q - 1) \<le> of_int q" using q1 by (simp add: pow2_def)
    have "rat_of_int q < of_int (2 ^ nat (bitlen q))" using bq(2) by (simp only: of_int_less_iff)
    then show "rat_of_int q < pow2 (bitlen q)" using q1 by (simp add: pow2_def)
  qed
  have qpos: "0 < rat_of_int q" using q by simp
  have lo: "pow2 (k - 1) < a"
  proof -
    have "pow2 (k - 1) * of_int q < pow2 (k - 1) * pow2 (bitlen q)"
      using Q(2) pow2_pos [of "k - 1"] by simp
    also have "\<dots> = pow2 (bitlen p - 1)"
      by (simp add: k_def flip: pow2_add)
    also have "\<dots> \<le> of_int p" by (rule P(1))
    finally show ?thesis using qpos by (simp add: a pos_less_divide_eq)
  qed
  have hi: "a < pow2 (k + 1)"
  proof -
    have "rat_of_int p < pow2 (bitlen p)" by (rule P(2))
    also have "\<dots> = pow2 (k + 1) * pow2 (bitlen q - 1)"
      by (simp add: k_def flip: pow2_add)
    also have "\<dots> \<le> pow2 (k + 1) * of_int q"
      using Q(1) pow2_pos [of "k + 1"] by simp
    finally show ?thesis using qpos by (simp add: a pos_divide_less_eq)
  qed
  have il: "ilog2 a = (if pow2 k \<le> a then k else k - 1)"
    by (simp add: ilog2_def pq k_def Let_def)
  show "pow2 (ilog2 a) \<le> a" using lo by (simp add: il)
  show "a < pow2 (ilog2 a + 1)" using hi by (simp add: il)
qed

lemma round_half_even_error:
  "\<bar>of_int (round_half_even y) - y\<bar> \<le> 1 / 2"
proof -
  have "of_int \<lfloor>y\<rfloor> \<le> y" "y < of_int \<lfloor>y\<rfloor> + 1" by linarith+
  then show ?thesis
    by (auto simp: round_half_even_def Let_def abs_le_iff)
qed

lemma round_half_even_nonneg: "0 \<le> y \<Longrightarrow> 0 \<le> round_half_even y"
  by (auto simp: round_half_even_def Let_def)

lemma round_double_Fin:
  assumes "0 < x" and "round_double x = Fin r"
  shows "\<bar>r - x\<bar> \<le> pow2 (max (ilog2 x) (- 1022) - 53)" and "0 \<le> r" and "r < pow2 1024"
proof -
  define ulp where "ulp = pow2 (max (ilog2 x) (- 1022) - 52)"
  define m where "m = round_half_even (x / ulp)"
  have ulp: "0 < ulp" by (simp add: ulp_def pow2_pos)
  have a: "\<bar>x\<bar> = x" using assms(1) by simp
  have rd: "round_double x =
      (if pow2 1024 \<le> of_int m * ulp then PInf else Fin (of_int m * ulp))"
    using assms(1) by (simp add: round_double_def Let_def a ulp_def m_def)
  with assms(2) have r: "r = of_int m * ulp" and small: "\<not> pow2 1024 \<le> of_int m * ulp"
    by (auto split: if_splits)
  show "r < pow2 1024" using small r by simp
  have "0 \<le> x / ulp" using assms(1) ulp by simp
  then have "0 \<le> m" unfolding m_def by (rule round_half_even_nonneg)
  then show "0 \<le> r" using ulp by (simp add: r)
  have "\<bar>of_int m - x / ulp\<bar> \<le> 1 / 2"
    unfolding m_def by (rule round_half_even_error)
  then have "\<bar>of_int m - x / ulp\<bar> * ulp \<le> 1 / 2 * ulp"
    using ulp by (simp only: mult_le_cancel_right_pos)
  moreover have "\<bar>of_int m - x / ulp\<bar> * ulp = \<bar>r - x\<bar>"
  proof -
    have "\<bar>of_int m - x / ulp\<bar> * ulp = \<bar>(of_int m - x / ulp) * ulp\<bar>"
      using ulp by (simp add: abs_mult)
    also have "(of_int m - x / ulp) * ulp = r - x"
      using ulp by (simp add: r left_diff_distrib)
    finally show ?thesis .
  qed
  moreover have "1 / 2 * ulp = pow2 (max (ilog2 x) (- 1022) - 53)"
  proof -
    have "pow2 (max (ilog2 x) (- 1022) - 52) = pow2 (max (ilog2 x) (- 1022) - 53) * pow2 1"
      by (simp flip: pow2_add)
    then show ?thesis by (simp add: ulp_def pow2_def)
  qed
  ultimately show "\<bar>r - x\<bar> \<le> pow2 (max (ilog2 x) (- 1022) - 53)" by simp
qed

lemma reciprocal_error:
  assumes "0 < t" and "t < pow2 1024" and "round_double (1 / t) = Fin r"
  shows "\<bar>r * t - 1\<bar> \<le> 1 / 2 ^ 51"
proof -
  define x where "x = 1 / t"
  have x: "0 < x" using assms(1) by (simp add: x_def)
  have xt: "x * t = 1" using assms(1) by (simp add: x_def)
  have err: "\<bar>r - x\<bar> \<le> pow2 (max (ilog2 x) (- 1022) - 53)"
    using round_double_Fin(1) [OF x] assms(3) by (simp add: x_def)
  have "\<bar>r * t - 1\<bar> = \<bar>r - x\<bar> * t"
  proof -
    have "r * t - 1 = (r - x) * t" using xt by (simp add: left_diff_distrib)
    then show ?thesis using assms(1) by (simp add: abs_mult)
  qed
  also have "\<dots> \<le> pow2 (max (ilog2 x) (- 1022) - 53) * t"
    using err assms(1) by (simp only: mult_le_cancel_right_pos)
  also have "\<dots> \<le> pow2 (- 51)"
  proof (cases "- 1022 \<le> ilog2 x")
    case True
    then have "pow2 (max (ilog2 x) (- 1022) - 53) = pow2 (ilog2 x) * pow2 (- 53)"
      by (simp add: max_def flip: pow2_add)
    also have "\<dots> \<le> x * pow2 (- 53)"
      using ilog2_bounds(1) [OF x] pow2_pos [of "- 53"] by simp
    finally have "pow2 (max (ilog2 x) (- 1022) - 53) * t \<le> x * pow2 (- 53) * t"
      using assms(1) by (simp only: mult_le_cancel_right_pos)
    also have "\<dots> = pow2 (- 53)" using xt by (simp add: mult.commute mult.left_commute)
    also have "\<dots> \<le> pow2 (- 51)" by (rule pow2_mono) simp
    finally show ?thesis .
  next
    case False
    then have "pow2 (max (ilog2 x) (- 1022) - 53) = pow2 (- 1075)"
      by (simp add: max_def)
    then have "pow2 (max (ilog2 x) (- 1022) - 53) * t \<le> pow2 (- 1075) * pow2 1024"
      using assms(2) pow2_pos [of "- 1075"] by simp
    also have "\<dots> = pow2 (- 51)" by (simp flip: pow2_add)
    finally show ?thesis .
  qed
  also have "pow2 (- 51) = 1 / 2 ^ 51" by (simp add: pow2_def)
  finally show ?thesis .
qed

lemma ilog2_less:
  assumes "0 < x" and "x < pow2 k"
  shows "ilog2 x < k"
proof -
  have "pow2 (ilog2 x) < pow2 k" using ilog2_bounds(1) [OF assms(1)] assms(2) by simp
  then show ?thesis by (rule pow2_less_cancel)
qed

lemma ilog2_ge:
  assumes "0 < x" and "pow2 k \<le> x"
  shows "k \<le> ilog2 x"
proof -
  have "pow2 k < pow2 (ilog2 x + 1)" using ilog2_bounds(2) [OF assms(1)] assms(2) by simp
  then have "k < ilog2 x + 1" by (rule pow2_less_cancel)
  then show ?thesis by simp
qed

lemma round_double_subnormal:
  assumes "0 < c" and "c < 2 ^ 52"
  shows "round_double (c * pow2 (- 1074)) = Fin (of_int (round_half_even c) * pow2 (- 1074))"
proof -
  define x where "x = c * pow2 (- 1074)"
  have x: "0 < x" using assms(1) pow2_pos [of "- 1074"] by (simp add: x_def)
  have "x < 2 ^ 52 * pow2 (- 1074)"
    using assms(2) pow2_pos [of "- 1074"] by (simp add: x_def)
  also have "(2::rat) ^ 52 * pow2 (- 1074) = pow2 52 * pow2 (- 1074)" by (simp add: pow2_def)
  also have "\<dots> = pow2 (- 1022)" by (simp flip: pow2_add)
  finally have "ilog2 x < - 1022" using x by (intro ilog2_less)
  then have e: "max (ilog2 x) (- 1022) - 52 = - 1074" by simp
  have q: "x / pow2 (- 1074) = c" using pow2_pos [of "- 1074"] by (simp add: x_def)
  have m: "rat_of_int (round_half_even c) \<le> c + 1 / 2"
    using round_half_even_error [of c] by linarith
  have "of_int (round_half_even c) * pow2 (- 1074) \<le> (c + 1 / 2) * pow2 (- 1074)"
    using m pow2_pos [of "- 1074"] by (simp only: mult_le_cancel_right_pos)
  also have "\<dots> < 2 ^ 53 * pow2 (- 1074)"
    using assms(2) pow2_pos [of "- 1074"] by simp
  also have "(2::rat) ^ 53 * pow2 (- 1074) = pow2 53 * pow2 (- 1074)" by (simp add: pow2_def)
  also have "\<dots> = pow2 (- 1021)" by (simp flip: pow2_add)
  also have "\<dots> \<le> pow2 1024" by (rule pow2_mono) simp
  finally have small: "\<not> pow2 1024 \<le> of_int (round_half_even c) * pow2 (- 1074)" by simp
  have a: "\<bar>x\<bar> = x" using x by simp
  have "round_double x = Fin (of_int (round_half_even c) * pow2 (- 1074))"
    using x small by (simp add: round_double_def Let_def a e q)
  then show ?thesis by (simp add: x_def)
qed

lemma round_double_overflow:
  assumes "pow2 1025 \<le> x"
  shows "round_double x = PInf"
proof -
  have x: "0 < x" using assms pow2_pos [of 1025] by simp
  have ge: "1025 \<le> ilog2 x" using x assms by (rule ilog2_ge)
  define ulp where "ulp = pow2 (ilog2 x - 52)"
  define m where "m = round_half_even (x / ulp)"
  have ulp: "0 < ulp" by (simp add: ulp_def pow2_pos)
  have e: "max (ilog2 x) (- 1022) = ilog2 x" using ge by simp
  have "x / ulp - 1 / 2 \<le> of_int m"
    using round_half_even_error [of "x / ulp"] unfolding m_def by linarith
  then have "(x / ulp - 1 / 2) * ulp \<le> of_int m * ulp"
    using ulp by (simp only: mult_le_cancel_right_pos)
  then have low: "x - ulp / 2 \<le> of_int m * ulp"
    using ulp by (simp add: left_diff_distrib)
  have "ulp = pow2 (ilog2 x) * pow2 (- 52)" by (simp add: ulp_def flip: pow2_add)
  also have "\<dots> \<le> x * pow2 (- 52)"
    using ilog2_bounds(1) [OF x] pow2_pos [of "- 52"] by simp
  also have "\<dots> \<le> x * 1"
    using x by (intro mult_left_mono) (simp_all add: pow2_def)
  finally have "ulp \<le> x" by simp
  with low have "x / 2 \<le> of_int m * ulp" by simp
  moreover have "pow2 1024 \<le> x / 2"
  proof -
    have "pow2 1025 = pow2 1024 * pow2 1" by (simp flip: pow2_add)
    then show ?thesis using assms by (simp add: pow2_def)
  qed
  ultimately have big: "pow2 1024 \<le> of_int m * ulp" by simp
  have a: "\<bar>x\<bar> = x" using x by simp
  show ?thesis
    using x big by (simp add: round_double_def Let_def a e ulp_def m_def)
qed

lemma round_double_normal:
  assumes "pow2 (- 1022) \<le> x" and "round_double x = Fin r"
  shows "\<bar>r - x\<bar> \<le> x * pow2 (- 53)"
proof -
  have x: "0 < x" using assms(1) pow2_pos [of "- 1022"] by simp
  have ge: "- 1022 \<le> ilog2 x" using x assms(1) by (rule ilog2_ge)
  have "\<bar>r - x\<bar> \<le> pow2 (max (ilog2 x) (- 1022) - 53)"
    using round_double_Fin(1) [OF x assms(2)] .
  also have "pow2 (max (ilog2 x) (- 1022) - 53) = pow2 (ilog2 x) * pow2 (- 53)"
    using ge by (simp add: max_def flip: pow2_add)
  also have "\<dots> \<le> x * pow2 (- 53)"
    using ilog2_bounds(1) [OF x] pow2_pos [of "- 53"] by simp
  finally show ?thesis .
qed

lemma round_double_finite:
  assumes "0 < x" and "x < pow2 1023"
  shows "\<exists>r. round_double x = Fin r"
proof -
  define e where "e = max (ilog2 x) (- 1022)"
  define ulp where "ulp = pow2 (e - 52)"
  define m where "m = round_half_even (x / ulp)"
  have ulp: "0 < ulp" by (simp add: ulp_def pow2_pos)
  have "rat_of_int m \<le> x / ulp + 1 / 2"
    using round_half_even_error [of "x / ulp"] unfolding m_def by linarith
  then have "of_int m * ulp \<le> (x / ulp + 1 / 2) * ulp"
    using ulp by (simp only: mult_le_cancel_right_pos)
  then have up: "of_int m * ulp \<le> x + ulp / 2"
    using ulp by (simp add: distrib_right)
  have "ulp \<le> pow2 1023"
  proof (cases "- 1022 \<le> ilog2 x")
    case True
    then have "ulp = pow2 (ilog2 x) * pow2 (- 52)"
      by (simp add: ulp_def e_def max_def flip: pow2_add)
    also have "\<dots> \<le> x * pow2 (- 52)"
      using ilog2_bounds(1) [OF assms(1)] pow2_pos [of "- 52"] by simp
    also have "\<dots> \<le> x * 1"
      using assms(1) by (intro mult_left_mono) (simp_all add: pow2_def)
    finally show ?thesis using assms(2) by simp
  next
    case False
    then have "ulp = pow2 (- 1074)" by (simp add: ulp_def e_def max_def)
    also have "\<dots> \<le> pow2 1023" by (rule pow2_mono) simp
    finally show ?thesis .
  qed
  with up assms(2) have "of_int m * ulp < pow2 1023 + pow2 1023 / 2" by simp
  also have "\<dots> \<le> pow2 1023 * pow2 1" by (simp add: pow2_def)
  also have "\<dots> = pow2 1024" by (simp flip: pow2_add)
  finally have small: "\<not> pow2 1024 \<le> of_int m * ulp" by simp
  have a: "\<bar>x\<bar> = x" using assms(1) by simp
  have "round_double x = Fin (of_int m * ulp)"
    using assms(1) small
    by (simp add: round_double_def Let_def a e_def [symmetric] ulp_def [symmetric]
        m_def [symmetric])
  then show ?thesis by blast
qed

lemma half_error:
  assumes "0 < x" and "\<bar>r - x\<bar> \<le> x * pow2 (- 53)"
  shows "x / 2 < r" and "r < 2 * x"
proof -
  have "x * pow2 (- 53) < x * (1 / 2)"
    using assms(1) by (intro mult_strict_left_mono) (simp_all add: pow2_def)
  with assms(2) have "\<bar>r - x\<bar> < x / 2" by simp
  then show "x / 2 < r" and "r < 2 * x" using assms(1) by linarith+
qed

lemma rate_of_text_total:
  assumes "py_float rt aux = Some (Fin ms)"
    and "pow2 (- 1022) \<le> ms / 1000" and "ms / 1000 \<le> pow2 1021"
  shows "\<exists>t r. py_truediv (Fin ms) (Fin 1000) = Inr (Fin t) \<and> 0 < t \<and>
    py_truediv (Fin 1) (Fin t) = Inr (Fin r) \<and> 0 < r \<and>
    rate_of_text rt aux = Inr (Fin r) \<and> \<bar>r * t - 1\<bar> \<le> 1 / 2 ^ 51"
proof -
  define x where "x = ms / 1000"
  have x: "0 < x" using assms(2) pow2_pos [of "- 1022"] by (simp add: x_def)
  have "x < pow2 1023"
  proof -
    have "pow2 1021 < pow2 1023" by (simp add: pow2_def)
    with assms(3) show ?thesis by (simp add: x_def)
  qed
  with x obtain t where t: "round_double x = Fin t" using round_double_finite by blast
  have et: "\<bar>t - x\<bar> \<le> x * pow2 (- 53)"
    using assms(2) t by (intro round_double_normal) (simp_all add: x_def)
  note tb = half_error [OF x et]
  have t0: "0 < t" using tb(1) x by simp
  have tl: "t < pow2 1024" using round_double_Fin(3) [OF x t] .
  define y where "y = 1 / t"
  have y: "0 < y" using t0 by (simp add: y_def)
  have ylo: "pow2 (- 1022) \<le> y"
  proof -
    have "t < 2 * pow2 1021" using tb(2) assms(3) by (simp add: x_def)
    also have "2 * pow2 1021 = pow2 1 * pow2 1021" by (simp add: pow2_def)
    also have "\<dots> = pow2 1022" by (simp flip: pow2_add)
    finally have "t * pow2 (- 1022) \<le> pow2 1022 * pow2 (- 1022)"
      using pow2_pos [of "- 1022"] by simp
    also have "\<dots> = 1" by (simp add: pow2_def flip: pow2_add)
    finally show ?thesis using t0 by (simp add: y_def pos_le_divide_eq mult.commute)
  qed
  have yhi: "y < pow2 1023"
  proof -
    have "pow2 (- 1022) / 2 \<le> x / 2" using assms(2) by (simp add: x_def)
    also have "\<dots> < t" by (rule tb(1))
    finally have "pow2 (- 1022) / 2 < t" .
    moreover have "pow2 (- 1022) / 2 = pow2 (- 1022) * pow2 (- 1)" by (simp add: pow2_def)
    ultimately have "pow2 (- 1023) < t" by (simp flip: pow2_add)
    then have "pow2 1023 * pow2 (- 1023) < pow2 1023 * t"
      using pow2_pos [of 1023] by simp
    moreover have "pow2 1023 * pow2 (- 1023) = 1" by (simp add: pow2_def flip: pow2_add)
    ultimately have "1 < pow2 1023 * t" by simp
    then show ?thesis using t0 by (simp add: y_def pos_divide_less_eq)
  qed
  from y yhi obtain r where r: "round_double y = Fin r" using round_double_finite by blast
  have "\<bar>r - y\<bar> \<le> y * pow2 (- 53)" using ylo r by (rule round_double_normal)
  then have r0: "0 < r" using half_error(1) [OF y] y by fastforce
  have err: "\<bar>r * t - 1\<bar> \<le> 1 / 2 ^ 51"
    using r by (intro reciprocal_error [OF t0 tl]) (simp add: y_def)
  have d: "py_truediv (Fin ms) (Fin 1000) = Inr (Fin t)" using t by (simp add: x_def)
  have q: "py_truediv (Fin 1) (Fin t) = Inr (Fin r)" using r t0 by (simp add: y_def)
  have t': "round_double (ms / 1000) = Fin t" using t by (simp add: x_def)
  have "rate_of_text rt aux = Inr (Fin r)"
    using q by (simp add: rate_of_text_def assms(1) t')
  with d q t0 r0 err show ?thesis by blast
qed

lemma scan_lines_append_Inr:
  assumes "scan_lines rt (pre @ rest) s = Inr s'" and "[] \<notin> set pre"
  shows "\<exists>s1. scan_lines rt pre s = Inr s1 \<and> scan_lines rt rest s1 = Inr s'"
  using assms by (induction pre arbitrary: s) (auto split: sum.splits)

lemma scan_line_sample_rate:
  assumes "scan_line rt line s = Inr s'" and "str_in ''sample_time'' line"
  shows "\<exists>r. rate_of_text rt (field_text [''sample_time'', ''='', ''msec''] line) = Inr r \<and>
    st_sample_rate s' = Some r"
  using assms
  by (auto simp: scan_line_def Let_def split: if_splits sum.splits option.splits)

lemma read_trial_meta_rate:
  assumes "text_of d trial_meta = Some (pre @ line # post)"
    and "[] \<notin> set pre" and "line \<noteq> []"
    and "str_in ''sample_time'' line"
    and "\<forall>l\<in>set post. \<not> str_in ''sample_time'' l"
    and "read_trial_meta rt d trial_meta = Inr (file_rsm, files, date, rate, n)"
  shows "rate_of_text rt (field_text [''sample_time'', ''='', ''msec''] line) = Inr rate"
proof -
  from assms(1,6) obtain s where
    s: "scan_lines rt (pre @ line # post) scan_init = Inr s" and
    f: "finish_meta s = Inr (file_rsm, files, date, rate, n)"
    by (auto simp: read_trial_meta_def parse_header_def split: sum.splits)
  from f have r: "st_sample_rate s = Some rate"
    by (auto simp: finish_meta_def split: list.splits option.splits)
  from scan_lines_append_Inr [OF s assms(2)] obtain s1 where
    "scan_lines rt (line # post) s1 = Inr s" by blast
  with assms(3) obtain s2 where
    s2: "scan_line rt line s1 = Inr s2" and p: "scan_lines rt post s2 = Inr s"
    by (auto split: sum.splits)
  from scan_line_sample_rate [OF s2 assms(4)] obtain r' where
    r': "rate_of_text rt (field_text [''sample_time'', ''='', ''msec''] line) = Inr r'"
      "st_sample_rate s2 = Some r'"
    by blast
  have "st_sample_rate s = st_sample_rate s2"
    using scan_lines_absent(2) [OF p] assms(5) by simp
  with r r' show ?thesis by simp
qed

text \<open>
  C5. For a header that \<^verbatim>\<open>read_trial_meta\<close> accepts, whose last \<^verbatim>\<open>sample_time\<close> line parses to a
  number \<open>ms\<close> of milliseconds with a sample time \<open>ms / 1000\<close> between \<open>2 ^ - 1022\<close> and
  \<open>2 ^ 1021\<close> seconds: the sample time \<open>t\<close> is the float \<open>ms / 1000\<close>, the returned rate is the
  float \<open>1 / t\<close>, finite and positive, and the exact product of the two floats differs from 1
  by at most \<open>2 ^ - 51\<close>.
\<close>

theorem sample_rate_reciprocal:
  assumes "text_of d trial_meta = Some (pre @ line # post)"
    and "[] \<notin> set pre" and "line \<noteq> []"
    and "str_in ''sample_time'' line"
    and "\<forall>l\<in>set post. \<not> str_in ''sample_time'' l"
    and "py_float rt (field_text [''sample_time'', ''='', ''msec''] line) = Some (Fin ms)"
    and "pow2 (- 1022) \<le> ms / 1000" and "ms / 1000 \<le> pow2 1021"
    and "read_trial_meta rt d trial_meta = Inr (file_rsm, files, date, rate, n)"
  shows "\<exists>t r. rate = Fin r \<and> 0 < r \<and> 0 < t \<and>
    py_truediv (Fin ms) (Fin 1000) = Inr (Fin t) \<and>
    py_truediv (Fin 1) (Fin t) = Inr (Fin r) \<and> \<bar>r * t - 1\<bar> \<le> 1 / 2 ^ 51"
proof -
  from rate_of_text_total [OF assms(6-8)] obtain t r where
    tr: "py_truediv (Fin ms) (Fin 1000) = Inr (Fin t)" "0 < t"
      "py_truediv (Fin 1) (Fin t) = Inr (Fin r)" "0 < r"
      "rate_of_text rt (field_text [''sample_time'', ''='', ''msec''] line) = Inr (Fin r)"
      "\<bar>r * t - 1\<bar> \<le> 1 / 2 ^ 51"
    by blast
  have "rate_of_text rt (field_text [''sample_time'', ''='', ''msec''] line) = Inr rate"
    by (rule read_trial_meta_rate [OF assms(1-5,9)])
  with tr(5) have "rate = Fin r" by simp
  with tr show ?thesis by blast
qed

theorem sample_rate_reciprocal_witness:
  "read_trial_meta example_builtins (example_directory ''5'' []) ''m-1_A.rsh'' =
     Inr (''m-1.rsm'', [''m-1(0).rsd''], ''2019/10/24 16:34:35'', Fin 100, 5) \<and>
   (\<exists>t. 0 < t \<and> py_truediv (Fin 10) (Fin 1000) = Inr (Fin t) \<and>
      py_truediv (Fin 1) (Fin t) = Inr (Fin 100) \<and> \<bar>100 * t - 1\<bar> \<le> 1 / 2 ^ 51)"
proof -
  have a: "text_of (example_directory ''5'' []) ''m-1_A.rsh'' =
      Some ([''acquisition_date=2019/10/24 16:34:35\<newline>''] @ ''sample_time = 10 msec\<newline>'' #
        [''page_frames = 5\<newline>'', ''Data-File-List\<newline>'', ''m-1.rsm\<newline>'', ''m-1(0).rsd\<newline>''])"
    by (simp add: example_directory_def example_header_def)
  have b: "[] \<notin> set [''acquisition_date=2019/10/24 16:34:35\<newline>'']" by simp
  have c: "''sample_time = 10 msec\<newline>'' \<noteq> []" by simp
  have e: "str_in ''sample_time'' ''sample_time = 10 msec\<newline>''" by simp
  have f: "\<forall>l\<in>set [''page_frames = 5\<newline>'', ''Data-File-List\<newline>'', ''m-1.rsm\<newline>'', ''m-1(0).rsd\<newline>''].
      \<not> str_in ''sample_time'' l"
    by simp
  have g: "py_float example_builtins
      (field_text [''sample_time'', ''='', ''msec''] ''sample_time = 10 msec\<newline>'') = Some (Fin 10)"
    by (simp add: field_text_def str_strip_def is_space_def example_builtins_def)
  have "pow2 (- 1022) \<le> pow2 (- 7)" by (rule pow2_mono) simp
  also have "\<dots> \<le> 10 / 1000" by (simp add: pow2_def)
  finally have lo: "pow2 (- 1022) \<le> 10 / 1000" .
  have "(10::rat) / 1000 \<le> pow2 0" by (simp add: pow2_def)
  also have "\<dots> \<le> pow2 1021" by (rule pow2_mono) simp
  finally have hi: "10 / 1000 \<le> pow2 1021" .
  have h: "read_trial_meta example_builtins (example_directory ''5'' []) ''m-1_A.rsh'' =
      Inr (''m-1.rsm'', [''m-1(0).rsd''], ''2019/10/24 16:34:35'', Fin 100, 5)"
    by (rule read_example_header) (simp_all add: example_builtins_def)
  from sample_rate_reciprocal [OF a b c e f g lo hi h] obtain t r where
    "Fin 100 = Fin r" "0 < t" "py_truediv (Fin 10) (Fin 1000) = Inr (Fin t)"
    "py_truediv (Fin 1) (Fin t) = Inr (Fin r)" "\<bar>r * t - 1\<bar> \<le> 1 / 2 ^ 51"
    by blast
  then have "0 < t \<and> py_truediv (Fin 10) (Fin 1000) = Inr (Fin t) \<and>
      py_truediv (Fin 1) (Fin t) = Inr (Fin 100) \<and> \<bar>100 * t - 1\<bar> \<le> 1 / 2 ^ 51"
    by simp
  with h show ?thesis by blast
qed

lemma round_half_even_tiny: "round_half_even (20240225330731 / 1000) = 20240225331"
proof -
  have "\<lfloor>(20240225330731::rat) / 1000\<rfloor> = 20240225330"
    by (rule floor_unique) simp_all
  then show ?thesis by (simp add: round_half_even_def)
qed

lemma rate_of_tiny_sample_time:
  assumes "py_float rt ''1e-310'' = Some (Fin (20240225330731 * pow2 (- 1074)))"
  shows "rate_of_text rt ''1e-310'' = Inr PInf"
    and "py_truediv (Fin (20240225330731 * pow2 (- 1074))) (Fin 1000) =
      Inr (Fin (20240225331 * pow2 (- 1074)))"
proof -
  have "round_double (20240225330731 / 1000 * pow2 (- 1074)) =
      Fin (of_int (round_half_even (20240225330731 / 1000)) * pow2 (- 1074))"
    by (rule round_double_subnormal) simp_all
  then have t: "round_double (20240225330731 * pow2 (- 1074) / 1000) =
      Fin (20240225331 * pow2 (- 1074))"
    by (simp add: round_half_even_tiny)
  then show d: "py_truediv (Fin (20240225330731 * pow2 (- 1074))) (Fin 1000) =
      Inr (Fin (20240225331 * pow2 (- 1074)))"
    by simp
  have "pow2 1025 * (20240225331 * pow2 (- 1074)) = 20240225331 * (pow2 1025 * pow2 (- 1074))"
    by simp
  also have "\<dots> = 20240225331 * pow2 (- 49)" by (simp flip: pow2_add)
  also have "\<dots> \<le> 1" by (simp add: pow2_def)
  finally have "pow2 1025 \<le> 1 / (20240225331 * pow2 (- 1074))"
    using pow2_pos [of "- 1074"] by (simp add: pos_le_divide_eq)
  then have "round_double (1 / (20240225331 * pow2 (- 1074))) = PInf"
    by (rule round_double_overflow)
  moreover have "(20240225331::rat) * pow2 (- 1074) \<noteq> 0"
    using pow2_pos [of "- 1074"] by simp
  ultimately show "rate_of_text rt ''1e-310'' = Inr PInf"
    using assms d by (simp add: rate_of_text_def)
qed

text \<open>
  Below the range of the theorem the rate can leave the finite floats: for
  \<^verbatim>\<open>sample_time = 1e-310 msec\<close> the sample time is the subnormal float \<open>20240225331 / 2 ^ 1074\<close>
  and its reciprocal overflows to the infinity.
\<close>

lemma tiny_sample_time_rate_infinite:
  "read_trial_meta example_builtins (directory_of_header header_tiny_sample_time) ''m-1_A.rsh'' =
     Inr (''m-1.rsm'', [''m-1(0).rsd''], ''2019/10/24 16:34:35'', PInf, 5) \<and>
   py_float example_builtins
     (field_text [''sample_time'', ''='', ''msec''] ''sample_time = 1e-310 msec\<newline>'') =
     Some (Fin (20240225330731 * pow2 (- 1074))) \<and>
   py_truediv (Fin (20240225330731 * pow2 (- 1074))) (Fin 1000) =
     Inr (Fin (20240225331 * pow2 (- 1074))) \<and>
   py_truediv (Fin 1) (Fin (20240225331 * pow2 (- 1074))) = Inr PInf"
proof -
  have f: "py_float example_builtins ''1e-310'' = Some (Fin (20240225330731 * pow2 (- 1074)))"
    by (simp add: example_builtins_def)
  have i: "py_int example_builtins ''5'' = Some 5"
    by (simp add: example_builtins_def)
  have a: "read_trial_meta example_builtins (directory_of_header header_tiny_sample_time)
      ''m-1_A.rsh'' = Inr (''m-1.rsm'', [''m-1(0).rsd''], ''2019/10/24 16:34:35'', PInf, 5)"
    using i
    by (simp add: read_trial_meta_def directory_of_header_def header_tiny_sample_time_def
        parse_header_def scan_line_def scan_init_def finish_meta_def field_text_def
        str_strip_def is_space_def rate_of_tiny_sample_time(1) [OF f])
  have b: "py_float example_builtins
     (field_text [''sample_time'', ''='', ''msec''] ''sample_time = 1e-310 msec\<newline>'') =
     Some (Fin (20240225330731 * pow2 (- 1074)))"
    by (simp add: field_text_def str_strip_def is_space_def example_builtins_def)
  have c: "py_truediv (Fin 1) (Fin (20240225331 * pow2 (- 1074))) = Inr PInf"
    using rate_of_tiny_sample_time [OF f] f by (simp add: rate_of_text_def)
  from a b c rate_of_tiny_sample_time(2) [OF f] show ?thesis by simp
qed

end
